theory Spec2Isabelle
  imports Complex_Main "HOL-Library.Word" "HOL-Library.Char_ord" "HOL-Library.List_Lexorder"
    "HOL-Library.AList"
begin

section \<open>Byte payloads holding JSON\<close>

text \<open>
  The statistics blobs of \<^verbatim>\<open>stat.go\<close> are \<^verbatim>\<open>[]byte\<close> values that the code only
  hands to \<^verbatim>\<open>json.Unmarshal\<close> or receives from \<^verbatim>\<open>json.Marshal\<close>. A blob is
  modelled by what the JSON scanner makes of it: no bytes at all, bytes that are not a
  JSON document, or the document it spells. A number keeps what the decoders of
  \<^verbatim>\<open>strconv\<close> look at: an integer literal keeps its sign and digits, a literal with a
  fraction or an exponent keeps its exact value.
\<close>

datatype number =
    IntLit bool nat
  | RealLit rat

datatype json =
    JNull
  | JBool bool
  | JNumber number
  | JString string
  | JArray "json list"
  | JObject "(string \<times> json) list"

datatype blob = NoBytes | Garbage | Doc json

section \<open>float64\<close>

text \<open>
  A \<^verbatim>\<open>float64\<close> is a finite binary64 value, held as the rational it denotes, an
  infinity or NaN. The sign of zero is not kept. \<open>f64_round\<close> is IEEE 754 rounding to
  nearest, ties to even, with 53 bits of precision, gradual underflow below
  \<open>2 ^ - 1022\<close> and overflow to an infinity from \<open>2 ^ 1024\<close> on.
\<close>

datatype f64 = Fin rat | PInf | NInf | NaN

function ilog2 :: "int \<Rightarrow> int" where
  "ilog2 n = (if n < 2 then 0 else 1 + ilog2 (n div 2))"
  by pat_completeness auto
termination
  by (relation "measure nat") auto

declare ilog2.simps [simp del]

definition floor_log2 :: "int \<Rightarrow> int \<Rightarrow> int" where
  "floor_log2 a b =
     (let e = ilog2 a - ilog2 b
      in if (if 0 \<le> e then b * 2 ^ nat e \<le> a else b \<le> a * 2 ^ nat (- e))
         then e else e - 1)"

definition round_half_even :: "int \<Rightarrow> int \<Rightarrow> int" where
  "round_half_even a b =
     (let f = a div b; r = a mod b
      in if 2 * r < b then f else if b < 2 * r then f + 1
         else if even f then f else f + 1)"

definition f64_round :: "rat \<Rightarrow> f64" where
  "f64_round q =
     (if q = 0 then Fin 0
      else let (a, b) = quotient_of \<bar>q\<bar>;
               k = max (floor_log2 a b) (- 1022) - 52;
               m = (if 0 \<le> k then round_half_even a (b * 2 ^ nat k)
                    else round_half_even (a * 2 ^ nat (- k)) b)
           in if 0 \<le> k \<and> 2 ^ 1024 \<le> m * 2 ^ nat k
              then (if 0 < q then PInf else NInf)
              else Fin (sgn q * of_int m * power_int 2 k))"

fun f64_add :: "f64 \<Rightarrow> f64 \<Rightarrow> f64" where
  "f64_add (Fin a) (Fin b) = f64_round (a + b)"
| "f64_add NaN _ = NaN"
| "f64_add _ NaN = NaN"
| "f64_add PInf NInf = NaN"
| "f64_add NInf PInf = NaN"
| "f64_add PInf _ = PInf"
| "f64_add _ PInf = PInf"
| "f64_add NInf _ = NInf"
| "f64_add _ NInf = NInf"

fun f64_less :: "f64 \<Rightarrow> f64 \<Rightarrow> bool" where
  "f64_less NaN _ = False"
| "f64_less _ NaN = False"
| "f64_less (Fin a) (Fin b) = (a < b)"
| "f64_less NInf NInf = False"
| "f64_less NInf _ = True"
| "f64_less _ NInf = False"
| "f64_less PInf _ = False"
| "f64_less _ PInf = True"

fun IsNaN :: "f64 \<Rightarrow> bool" where
  "IsNaN NaN = True"
| "IsNaN _ = False"

fun IsInf :: "f64 \<Rightarrow> bool" where
  "IsInf PInf = True"
| "IsInf NInf = True"
| "IsInf _ = False"

text \<open>\<^verbatim>\<open>math.Max\<close> and \<^verbatim>\<open>math.Min\<close>: an infinity wins, then NaN, then the order.\<close>

definition f64_max :: "f64 \<Rightarrow> f64 \<Rightarrow> f64" where
  "f64_max x y =
     (if x = PInf \<or> y = PInf then PInf
      else if IsNaN x \<or> IsNaN y then NaN
      else if f64_less x y then y else x)"

definition f64_min :: "f64 \<Rightarrow> f64 \<Rightarrow> f64" where
  "f64_min x y =
     (if x = NInf \<or> y = NInf then NInf
      else if IsNaN x \<or> IsNaN y then NaN
      else if f64_less y x then y else x)"

text \<open>The value of a number literal.\<close>

fun number_value :: "number \<Rightarrow> rat" where
  "number_value (IntLit neg n) = (if neg then - of_nat n else of_nat n)"
| "number_value (RealLit q) = q"

section \<open>Decoding and encoding scalars\<close>

text \<open>
  \<^verbatim>\<open>json.Unmarshal(value, &v)\<close> for a numeric \<^verbatim>\<open>v\<close>; \<open>None\<close> is a non-nil error.
  A blob that is no JSON document is a syntax error; \<^verbatim>\<open>null\<close> leaves the zero value
  of the fresh variable and is no error; a number goes through \<^verbatim>\<open>strconv.ParseFloat\<close>,
  \<^verbatim>\<open>ParseUint\<close> (no sign accepted) or \<^verbatim>\<open>ParseInt\<close>, which fail out of range and,
  for the integers, on a fraction or exponent; every other document is a type error.
\<close>

fun unmarshalFloat64 :: "blob \<Rightarrow> f64 option" where
  "unmarshalFloat64 (Doc JNull) = Some (Fin 0)"
| "unmarshalFloat64 (Doc (JNumber n)) =
     (case f64_round (number_value n) of Fin q \<Rightarrow> Some (Fin q) | _ \<Rightarrow> None)"
| "unmarshalFloat64 _ = None"

fun unmarshalUint64 :: "blob \<Rightarrow> 64 word option" where
  "unmarshalUint64 (Doc JNull) = Some 0"
| "unmarshalUint64 (Doc (JNumber (IntLit neg n))) =
     (if \<not> neg \<and> n < 2 ^ 64 then Some (of_nat n) else None)"
| "unmarshalUint64 _ = None"

fun unmarshalInt64 :: "blob \<Rightarrow> 64 word option" where
  "unmarshalInt64 (Doc JNull) = Some 0"
| "unmarshalInt64 (Doc (JNumber (IntLit neg n))) =
     (let i = (if neg then - int n else int n)
      in if - (2 ^ 63) \<le> i \<and> i < 2 ^ 63 then Some (of_int i) else None)"
| "unmarshalInt64 _ = None"

text \<open>
  \<^verbatim>\<open>json.Marshal\<close> of a number. A float that is an infinity or NaN is an
  \<^verbatim>\<open>UnsupportedValueError\<close>. A finite float is written as a number literal, without a
  fraction or exponent when it is a whole number below \<open>10 ^ 21\<close>. The literal is held
  here by the exact value of the float: the digits that the encoder prints (the fewest
  that read back as the same float, which are the exact value for a whole number below
  \<open>2 ^ 53\<close> and differ from it for most other floats) and the sign of a zero are
  not modelled. Whether the encoder fails is modelled exactly.
\<close>

definition int_lit :: "int \<Rightarrow> number" where
  "int_lit i = IntLit (i < 0) (nat \<bar>i\<bar>)"

definition marshalFloat64 :: "f64 \<Rightarrow> json option" where
  "marshalFloat64 x =
     (case x of
        Fin q \<Rightarrow>
          Some (JNumber (if q = of_int \<lfloor>q\<rfloor> \<and> \<bar>q\<bar> < 10 ^ 21 then int_lit \<lfloor>q\<rfloor> else RealLit q))
      | _ \<Rightarrow> None)"

definition marshalUint64 :: "64 word \<Rightarrow> json" where
  "marshalUint64 w = JNumber (int_lit (uint w))"

definition marshalInt64 :: "64 word \<Rightarrow> json" where
  "marshalInt64 w = JNumber (int_lit (sint w))"

definition bytes_of :: "json option \<Rightarrow> blob" where
  "bytes_of r = (case r of None \<Rightarrow> NoBytes | Some j \<Rightarrow> Doc j)"

section \<open>The numeric reducers\<close>

datatype numtyp = Float64 | Uint64 | Int64 | OtherType

fun sumFloat64Loop :: "f64 \<times> bool \<Rightarrow> blob list \<Rightarrow> f64 \<times> bool" where
  "sumFloat64Loop (acc, handledAny) [] = (acc, handledAny)"
| "sumFloat64Loop (acc, handledAny) (value # values) =
     (case unmarshalFloat64 value of
        None \<Rightarrow> sumFloat64Loop (acc, handledAny) values
      | Some v \<Rightarrow> sumFloat64Loop (f64_add acc v, True) values)"

fun sumUint64Loop :: "64 word \<times> bool \<Rightarrow> blob list \<Rightarrow> 64 word \<times> bool" where
  "sumUint64Loop (acc, handledAny) [] = (acc, handledAny)"
| "sumUint64Loop (acc, handledAny) (value # values) =
     (case unmarshalUint64 value of
        None \<Rightarrow> sumUint64Loop (acc, handledAny) values
      | Some v \<Rightarrow> sumUint64Loop (acc + v, True) values)"

fun sumInt64Loop :: "64 word \<times> bool \<Rightarrow> blob list \<Rightarrow> 64 word \<times> bool" where
  "sumInt64Loop (acc, handledAny) [] = (acc, handledAny)"
| "sumInt64Loop (acc, handledAny) (value # values) =
     (case unmarshalInt64 value of
        None \<Rightarrow> sumInt64Loop (acc, handledAny) values
      | Some v \<Rightarrow> sumInt64Loop (acc + v, True) values)"

definition numericSum :: "numtyp \<Rightarrow> blob list \<Rightarrow> blob" where
  "numericSum typ values =
     (if values = [] then NoBytes
      else case typ of
        Float64 \<Rightarrow>
          (let (acc, handledAny) = sumFloat64Loop (Fin 0, False) values
           in if \<not> handledAny then NoBytes else bytes_of (marshalFloat64 acc))
      | Uint64 \<Rightarrow>
          (let (acc, handledAny) = sumUint64Loop (0, False) values
           in if \<not> handledAny then NoBytes else Doc (marshalUint64 acc))
      | Int64 \<Rightarrow>
          (let (acc, handledAny) = sumInt64Loop (0, False) values
           in if \<not> handledAny then NoBytes else Doc (marshalInt64 acc))
      | OtherType \<Rightarrow> NoBytes)"


fun maxFloat64Loop :: "f64 \<times> bool \<Rightarrow> blob list \<Rightarrow> f64 \<times> bool" where
  "maxFloat64Loop (mx, handledAny) [] = (mx, handledAny)"
| "maxFloat64Loop (mx, handledAny) (value # values) =
     (case unmarshalFloat64 value of
        None \<Rightarrow> maxFloat64Loop (mx, handledAny) values
      | Some v \<Rightarrow> maxFloat64Loop (if IsNaN mx then v else f64_max mx v, True) values)"

fun maxUint64Loop :: "64 word \<times> bool \<Rightarrow> blob list \<Rightarrow> 64 word \<times> bool" where
  "maxUint64Loop (mx, handledAny) [] = (mx, handledAny)"
| "maxUint64Loop (mx, handledAny) (value # values) =
     (case unmarshalUint64 value of
        None \<Rightarrow> maxUint64Loop (mx, handledAny) values
      | Some v \<Rightarrow> maxUint64Loop (if mx < v then v else mx, True) values)"

fun maxInt64Loop :: "64 word \<times> bool \<Rightarrow> blob list \<Rightarrow> 64 word \<times> bool" where
  "maxInt64Loop (mx, handledAny) [] = (mx, handledAny)"
| "maxInt64Loop (mx, handledAny) (value # values) =
     (case unmarshalInt64 value of
        None \<Rightarrow> maxInt64Loop (mx, handledAny) values
      | Some v \<Rightarrow> maxInt64Loop (if sint mx < sint v then v else mx, True) values)"

definition numericMax :: "numtyp \<Rightarrow> blob list \<Rightarrow> blob" where
  "numericMax typ values =
     (if values = [] then NoBytes
      else case typ of
        Float64 \<Rightarrow>
          (let (mx, handledAny) = maxFloat64Loop (NaN, False) values
           in if \<not> handledAny then NoBytes else bytes_of (marshalFloat64 mx))
      | Uint64 \<Rightarrow>
          (let (mx, handledAny) = maxUint64Loop (0, False) values
           in if \<not> handledAny then NoBytes else Doc (marshalUint64 mx))
      | Int64 \<Rightarrow>
          (let (mx, handledAny) = maxInt64Loop (of_int (- (2 ^ 63)), False) values
           in if \<not> handledAny then NoBytes else Doc (marshalInt64 mx))
      | OtherType \<Rightarrow> NoBytes)"

fun minFloat64Loop :: "f64 \<times> bool \<Rightarrow> blob list \<Rightarrow> f64 \<times> bool" where
  "minFloat64Loop (mn, handledAny) [] = (mn, handledAny)"
| "minFloat64Loop (mn, handledAny) (value # values) =
     (case unmarshalFloat64 value of
        None \<Rightarrow> minFloat64Loop (mn, handledAny) values
      | Some v \<Rightarrow> minFloat64Loop (if IsNaN mn then v else f64_min mn v, True) values)"

fun minUint64Loop :: "64 word \<times> bool \<Rightarrow> blob list \<Rightarrow> 64 word \<times> bool" where
  "minUint64Loop (mn, handledAny) [] = (mn, handledAny)"
| "minUint64Loop (mn, handledAny) (value # values) =
     (case unmarshalUint64 value of
        None \<Rightarrow> minUint64Loop (mn, handledAny) values
      | Some v \<Rightarrow> minUint64Loop (if v < mn then v else mn, True) values)"

fun minInt64Loop :: "64 word \<times> bool \<Rightarrow> blob list \<Rightarrow> 64 word \<times> bool" where
  "minInt64Loop (mn, handledAny) [] = (mn, handledAny)"
| "minInt64Loop (mn, handledAny) (value # values) =
     (case unmarshalInt64 value of
        None \<Rightarrow> minInt64Loop (mn, handledAny) values
      | Some v \<Rightarrow> minInt64Loop (if sint v < sint mn then v else mn, True) values)"

definition numericMin :: "numtyp \<Rightarrow> blob list \<Rightarrow> blob" where
  "numericMin typ values =
     (if values = [] then NoBytes
      else case typ of
        Float64 \<Rightarrow>
          (let (mn, handledAny) = minFloat64Loop (NaN, False) values
           in if \<not> handledAny then NoBytes else bytes_of (marshalFloat64 mn))
      | Uint64 \<Rightarrow>
          (let (mn, handledAny) = minUint64Loop (of_int (2 ^ 64 - 1), False) values
           in if \<not> handledAny then NoBytes else Doc (marshalUint64 mn))
      | Int64 \<Rightarrow>
          (let (mn, handledAny) = minInt64Loop (of_int (2 ^ 63 - 1), False) values
           in if \<not> handledAny then NoBytes else Doc (marshalInt64 mn))
      | OtherType \<Rightarrow> NoBytes)"

text \<open>
  The aggregators that the catalogs name. (\<^verbatim>\<open>numericAvg\<close> and the wrappers that no
  catalog entry uses are not needed below.)
\<close>

datatype stateAggregator = maxFloat64 | sumFloat64 | sumUint64 | maxInt64 | minInt64 | sumInt64

fun aggregate :: "stateAggregator \<Rightarrow> blob list \<Rightarrow> blob" where
  "aggregate maxFloat64 values = numericMax Float64 values"
| "aggregate sumFloat64 values = numericSum Float64 values"
| "aggregate sumUint64 values = numericSum Uint64 values"
| "aggregate maxInt64 values = numericMax Int64 values"
| "aggregate minInt64 values = numericMin Int64 values"
| "aggregate sumInt64 values = numericSum Int64 values"

definition pipelineIndicatorAggregateMap :: "(string \<times> stateAggregator) list" where
  "pipelineIndicatorAggregateMap =
    [(''THROUGHPUT_RATE_LAST_1MIN_ALL'', sumFloat64),
     (''THROUGHPUT_RATE_LAST_5MIN_ALL'', sumFloat64),
     (''THROUGHPUT_RATE_LAST_15MIN_ALL'', sumFloat64),
     (''EXECUTION_COUNT_ALL'', sumInt64),
     (''EXECUTION_TIME_MAX_ALL'', maxInt64),
     (''EXECUTION_TIME_MIN_ALL'', minInt64),
     (''EXECUTION_TIME_50_PERCENT_ALL'', maxFloat64),
     (''EXECUTION_TIME_90_PERCENT_ALL'', maxFloat64),
     (''EXECUTION_TIME_99_PERCENT_ALL'', maxFloat64),
     (''EXECUTION_TIME_STD_DEV_ALL'', maxFloat64),
     (''EXECUTION_TIME_VARIANCE_ALL'', maxFloat64),
     (''EXECUTION_TIME_SUM_ALL'', sumInt64)]"

definition pluginIndicatorAggregateMap :: "(string \<times> stateAggregator) list" where
  "pluginIndicatorAggregateMap =
    [(''THROUGHPUT_RATE_LAST_1MIN_ALL'', sumFloat64),
     (''THROUGHPUT_RATE_LAST_5MIN_ALL'', sumFloat64),
     (''THROUGHPUT_RATE_LAST_15MIN_ALL'', sumFloat64),
     (''THROUGHPUT_RATE_LAST_1MIN_SUCCESS'', sumFloat64),
     (''THROUGHPUT_RATE_LAST_5MIN_SUCCESS'', sumFloat64),
     (''THROUGHPUT_RATE_LAST_15MIN_SUCCESS'', sumFloat64),
     (''THROUGHPUT_RATE_LAST_1MIN_FAILURE'', sumFloat64),
     (''THROUGHPUT_RATE_LAST_5MIN_FAILURE'', sumFloat64),
     (''THROUGHPUT_RATE_LAST_15MIN_FAILURE'', sumFloat64),
     (''EXECUTION_COUNT_ALL'', sumInt64),
     (''EXECUTION_COUNT_SUCCESS'', sumInt64),
     (''EXECUTION_COUNT_FAILURE'', sumInt64),
     (''EXECUTION_TIME_MAX_ALL'', maxInt64),
     (''EXECUTION_TIME_MAX_SUCCESS'', maxInt64),
     (''EXECUTION_TIME_MAX_FAILURE'', maxInt64),
     (''EXECUTION_TIME_MIN_ALL'', minInt64),
     (''EXECUTION_TIME_MIN_SUCCESS'', minInt64),
     (''EXECUTION_TIME_MIN_FAILURE'', minInt64),
     (''EXECUTION_TIME_50_PERCENT_SUCCESS'', maxFloat64),
     (''EXECUTION_TIME_50_PERCENT_FAILURE'', maxFloat64),
     (''EXECUTION_TIME_90_PERCENT_SUCCESS'', maxFloat64),
     (''EXECUTION_TIME_90_PERCENT_FAILURE'', maxFloat64),
     (''EXECUTION_TIME_99_PERCENT_SUCCESS'', maxFloat64),
     (''EXECUTION_TIME_99_PERCENT_FAILURE'', maxFloat64),
     (''EXECUTION_TIME_STD_DEV_SUCCESS'', maxFloat64),
     (''EXECUTION_TIME_STD_DEV_FAILURE'', maxFloat64),
     (''EXECUTION_TIME_VARIANCE_SUCCESS'', maxFloat64),
     (''EXECUTION_TIME_VARIANCE_FAILURE'', maxFloat64),
     (''EXECUTION_TIME_SUM_ALL'', sumInt64),
     (''EXECUTION_TIME_SUM_SUCCESS'', sumInt64),
     (''EXECUTION_TIME_SUM_FAILURE'', sumInt64),
     (''WAIT_QUEUE_LENGTH'', sumUint64),
     (''WIP_REQUEST_COUNT'', sumUint64),
     (''RECENT_HEADER_COUNT '', sumUint64)]"

definition taskIndicatorAggregateMap :: "(string \<times> stateAggregator) list" where
  "taskIndicatorAggregateMap =
    [(''EXECUTION_COUNT_ALL'', sumUint64),
     (''EXECUTION_COUNT_SUCCESS'', sumUint64),
     (''EXECUTION_COUNT_FAILURE'', sumUint64)]"

section \<open>Values behind \<^verbatim>\<open>interface{}\<close>\<close>

text \<open>
  The Go values that \<^verbatim>\<open>json.Unmarshal\<close> stores into an \<^verbatim>\<open>interface{}\<close> (nil, bool,
  float64, string, slice, map) and the integers a registry may hand out. A JSON string
  is held decoded, so reading and writing one is the identity here.
\<close>

datatype goval =
    GNil
  | GBool bool
  | GFloat64 f64
  | GInt64 "64 word"
  | GUint64 "64 word"
  | GString string
  | GSlice "goval list"
  | GMap "(string \<times> goval) list"

text \<open>
  Decoding into an empty interface; \<open>None\<close> is a non-nil error (a number outside
  float64). In an object a later member replaces an earlier one of the same name.
\<close>

fun valueInterface :: "json \<Rightarrow> goval option" where
  "valueInterface JNull = Some GNil"
| "valueInterface (JBool b) = Some (GBool b)"
| "valueInterface (JNumber n) =
     (case f64_round (number_value n) of Fin q \<Rightarrow> Some (GFloat64 (Fin q)) | _ \<Rightarrow> None)"
| "valueInterface (JString s) = Some (GString s)"
| "valueInterface (JArray xs) = map_option GSlice (those (map valueInterface xs))"
| "valueInterface (JObject kvs) =
     map_option (\<lambda>vs. GMap (foldl (\<lambda>m (k, v). AList.update k v m) [] (zip (map fst kvs) vs)))
       (those (map (\<lambda>kv. valueInterface (snd kv)) kvs))"

text \<open>
  \<^verbatim>\<open>json.Marshal\<close> of such a value; \<open>None\<close> is a non-nil error (a float that is an
  infinity or NaN). The members of a map are written in the order of their keys.
\<close>

fun marshal :: "goval \<Rightarrow> json option" where
  "marshal GNil = Some JNull"
| "marshal (GBool b) = Some (JBool b)"
| "marshal (GFloat64 x) = marshalFloat64 x"
| "marshal (GInt64 w) = Some (marshalInt64 w)"
| "marshal (GUint64 w) = Some (marshalUint64 w)"
| "marshal (GString s) = Some (JString s)"
| "marshal (GSlice xs) = map_option JArray (those (map marshal xs))"
| "marshal (GMap kvs) =
     map_option (\<lambda>js. JObject (sort_key fst (zip (map fst kvs) js)))
       (those (map (\<lambda>kv. marshal (snd kv)) kvs))"


section \<open>The result structs\<close>

text \<open>
  Modelled from the spec: the declarations of \<^verbatim>\<open>ResultStatIndicatorNames\<close>,
  \<^verbatim>\<open>ResultStatIndicatorValue\<close> and \<^verbatim>\<open>ResultStatIndicatorDesc\<close> are outside this
  file. Each has one field, written \<^verbatim>\<open>{"Names":[...]}\<close>, \<^verbatim>\<open>{"Value":...}\<close> and
  \<^verbatim>\<open>{"Desc":"..."}\<close>; \<^verbatim>\<open>Names\<close> is a \<^verbatim>\<open>[]string\<close>, and \<^verbatim>\<open>Value\<close> and \<^verbatim>\<open>Desc\<close>,
  which the code compares with \<^verbatim>\<open>nil\<close>, are empty interfaces.
\<close>

definition namesKey :: string where "namesKey = ''Names''"
definition valueKey :: string where "valueKey = ''Value''"
definition descKey :: string where "descKey = ''Desc''"

text \<open>
  An object member is stored in the field whose name it has, whatever the case of its
  letters. Two names match when they are equal after case folding: an ASCII letter
  folds to its lower case, and so do the two letters outside ASCII that fold to an
  ASCII letter, the long s (U+017F, the bytes C5 BF) and the Kelvin sign (U+212A, the
  bytes E2 84 AA). The field names are ASCII, so no other letter can match them.
\<close>

definition foldChar :: "char \<Rightarrow> char" where
  "foldChar c = (if CHR ''A'' \<le> c \<and> c \<le> CHR ''Z'' then char_of (of_char c + (32::nat)) else c)"

fun foldName :: "string \<Rightarrow> string" where
  "foldName [] = []"
| "foldName (c # cs) =
     (if c = CHR 0xC5 \<and> take 1 cs = [CHR 0xBF] then CHR ''s'' # foldName (drop 1 cs)
      else if c = CHR 0xE2 \<and> take 2 cs = [CHR 0x84, CHR 0xAA] then CHR ''k'' # foldName (drop 2 cs)
      else foldChar c # foldName cs)"

definition equalFold :: "string \<Rightarrow> string \<Rightarrow> bool" where
  "equalFold s t = (foldName s = foldName t)"

text \<open>
  Decoding the members of an object into a struct with one interface field. The
  members are taken in order; \<open>None\<close> is a non-nil error.
\<close>

fun decodeInterfaceField :: "string \<Rightarrow> goval \<Rightarrow> (string \<times> json) list \<Rightarrow> goval option" where
  "decodeInterfaceField name cur [] = Some cur"
| "decodeInterfaceField name cur ((k, v) # kvs) =
     (if equalFold k name
      then (case valueInterface v of
              None \<Rightarrow> None
            | Some g \<Rightarrow> decodeInterfaceField name g kvs)
      else decodeInterfaceField name cur kvs)"

fun unmarshalInterfaceStruct :: "string \<Rightarrow> blob \<Rightarrow> goval option" where
  "unmarshalInterfaceStruct name (Doc JNull) = Some GNil"
| "unmarshalInterfaceStruct name (Doc (JObject kvs)) = decodeInterfaceField name GNil kvs"
| "unmarshalInterfaceStruct name _ = None"

definition unmarshalValue :: "blob \<Rightarrow> goval option" where
  "unmarshalValue b = unmarshalInterfaceStruct valueKey b"

definition unmarshalDesc :: "blob \<Rightarrow> goval option" where
  "unmarshalDesc b = unmarshalInterfaceStruct descKey b"

text \<open>
  Decoding an array into a \<^verbatim>\<open>[]string\<close>: a string is stored, \<^verbatim>\<open>null\<close> leaves the
  element as it is (the empty string in a fresh slice), anything else is an error.
\<close>

fun decodeStrings :: "string list \<Rightarrow> json list \<Rightarrow> string list option" where
  "decodeStrings cur [] = Some []"
| "decodeStrings cur (x # xs) =
     (case x of
        JString s \<Rightarrow> map_option ((#) s) (decodeStrings (tl cur) xs)
      | JNull \<Rightarrow> map_option ((#) (case cur of [] \<Rightarrow> [] | c # _ \<Rightarrow> c)) (decodeStrings (tl cur) xs)
      | _ \<Rightarrow> None)"

fun decodeNamesField :: "string list \<Rightarrow> (string \<times> json) list \<Rightarrow> string list option" where
  "decodeNamesField cur [] = Some cur"
| "decodeNamesField cur ((k, v) # kvs) =
     (if equalFold k namesKey
      then (case v of
              JNull \<Rightarrow> decodeNamesField [] kvs
            | JArray xs \<Rightarrow>
                (case decodeStrings cur xs of
                   None \<Rightarrow> None
                 | Some ns \<Rightarrow> decodeNamesField ns kvs)
            | _ \<Rightarrow> None)
      else decodeNamesField cur kvs)"

fun unmarshalNames :: "blob \<Rightarrow> string list option" where
  "unmarshalNames (Doc JNull) = Some []"
| "unmarshalNames (Doc (JObject kvs)) = decodeNamesField [] kvs"
| "unmarshalNames _ = None"

text \<open>Encoding: a nil slice of names is written \<^verbatim>\<open>null\<close>.\<close>

definition marshalNames :: "string list option \<Rightarrow> json" where
  "marshalNames names =
     JObject [(namesKey, case names of None \<Rightarrow> JNull | Some ns \<Rightarrow> JArray (map JString ns))]"

definition marshalValue :: "goval \<Rightarrow> json option" where
  "marshalValue v = map_option (\<lambda>j. JObject [(valueKey, j)]) (marshal v)"

definition marshalDesc :: "goval \<Rightarrow> json option" where
  "marshalDesc v = map_option (\<lambda>j. JObject [(descKey, j)]) (marshal v)"

section \<open>Requests, responses and errors\<close>

datatype ClusterErrorType =
    NoneError
  | WrongMessageFormatError
  | InternalServerError
  | TimeoutError
  | IssueMemberGoneError
  | PipelineStatNotFoundError
  | RetrievePipelineStatValueError
  | RetrievePipelineStatDescError
  | RetrievePluginStatValueError
  | RetrievePluginStatDescError
  | RetrieveTaskStatValueError
  | RetrieveTaskStatDescError

record ClusterError =
  Type :: ClusterErrorType
  Message :: string

definition newClusterError :: "string \<Rightarrow> ClusterErrorType \<Rightarrow> ClusterError" where
  "newClusterError msg typ = \<lparr>Type = typ, Message = msg\<rparr>"

text \<open>
  The nine filter structs are declared outside this file; a filter is held as the
  selectors that this file reads from it, and a selector that a filter type does not
  have is never read.
\<close>

record Filter =
  PipelineName :: string
  PluginName :: string
  IndicatorName :: string

record ReqStat =
  Timeout :: int
  FilterPipelineIndicatorNames :: "Filter option"
  FilterPipelineIndicatorValue :: "Filter option"
  FilterPipelineIndicatorDesc :: "Filter option"
  FilterPluginIndicatorNames :: "Filter option"
  FilterPluginIndicatorValue :: "Filter option"
  FilterPluginIndicatorDesc :: "Filter option"
  FilterTaskIndicatorNames :: "Filter option"
  FilterTaskIndicatorValue :: "Filter option"
  FilterTaskIndicatorDesc :: "Filter option"

record RespStat =
  Names :: blob
  Value :: blob
  Desc :: blob
  Err :: "ClusterError option"

definition emptyRespStat :: RespStat where
  "emptyRespStat = \<lparr>Names = NoBytes, Value = NoBytes, Desc = NoBytes, Err = None\<rparr>"

section \<open>The combiner\<close>

datatype go_panic = NilPointerDereference

text \<open>The loops of the names case: \<open>memory\<close> is the set of names seen so far.\<close>

fun namesInnerLoop :: "string set \<times> string list \<Rightarrow> string list \<Rightarrow> string set \<times> string list" where
  "namesInnerLoop (memory, retNames) [] = (memory, retNames)"
| "namesInnerLoop (memory, retNames) (name # names) =
     (if name \<notin> memory
      then namesInnerLoop (insert name memory, retNames @ [name]) names
      else namesInnerLoop (memory, retNames) names)"

fun namesLoop :: "string set \<times> string list \<Rightarrow> RespStat list \<Rightarrow> string set \<times> string list" where
  "namesLoop (memory, retNames) [] = (memory, retNames)"
| "namesLoop (memory, retNames) (resp # respStats) =
     (case unmarshalNames (Names resp) of
        None \<Rightarrow> namesLoop (memory, retNames) respStats
      | Some rNames \<Rightarrow> namesLoop (namesInnerLoop (memory, retNames) rNames) respStats)"

fun descLoop :: "RespStat list \<Rightarrow> RespStat option" where
  "descLoop [] = None"
| "descLoop (resp # respStats) =
     (case unmarshalDesc (Desc resp) of
        None \<Rightarrow> descLoop respStats
      | Some d \<Rightarrow>
          if d = GNil then descLoop respStats
          else Some (emptyRespStat\<lparr>Desc := Desc resp\<rparr>))"

fun indicatorValuesLoop :: "goval list \<Rightarrow> RespStat list \<Rightarrow> goval list" where
  "indicatorValuesLoop indicatorValues [] = indicatorValues"
| "indicatorValuesLoop indicatorValues (resp # respStats) =
     (case unmarshalValue (Value resp) of
        None \<Rightarrow> indicatorValuesLoop indicatorValues respStats
      | Some v \<Rightarrow>
          if v = GNil then indicatorValuesLoop indicatorValues respStats
          else indicatorValuesLoop (indicatorValues @ [v]) respStats)"

text \<open>
  The value that the loop above takes from a partial, if any: the value blob decodes
  without error and what it decodes to is not nil.
\<close>

definition decodedValue :: "RespStat \<Rightarrow> goval option" where
  "decodedValue resp =
     (case unmarshalValue (Value resp) of
        None \<Rightarrow> None
      | Some v \<Rightarrow> if v = GNil then None else Some v)"

fun valuesLoop :: "blob list \<Rightarrow> goval list \<Rightarrow> blob list" where
  "valuesLoop values [] = values"
| "valuesLoop values (v # indicatorValues) =
     (case marshal v of
        None \<Rightarrow> valuesLoop values indicatorValues
      | Some valueBuff \<Rightarrow> valuesLoop (values @ [Doc valueBuff]) indicatorValues)"

text \<open>
  One body of the chain of value cases, which fall through from the scope of the
  request to the task scope: the indicator name and the aggregator are set only while
  the name is still empty, from the filter of that body, which may be a nil pointer.
\<close>

definition valueCase ::
  "Filter option \<Rightarrow> (string \<times> stateAggregator) list \<Rightarrow> string \<times> stateAggregator option
     \<Rightarrow> go_panic + string \<times> stateAggregator option" where
  "valueCase fltr aggregateMap st =
     (case st of (indicatorName, aggregator) \<Rightarrow>
        if length indicatorName = 0
        then (case fltr of
                None \<Rightarrow> Inl NilPointerDereference
              | Some f \<Rightarrow>
                  Inr (IndicatorName f,
                       if aggregator = None then map_of aggregateMap (IndicatorName f)
                       else aggregator))
        else Inr st)"

definition valueTail ::
  "string \<times> stateAggregator option \<Rightarrow> RespStat list \<Rightarrow> RespStat option" where
  "valueTail st respStats =
     (case st of (indicatorName, aggregator) \<Rightarrow>
        if length indicatorName = 0 then None
        else
          let indicatorValues = indicatorValuesLoop [] respStats
          in case aggregator of
               None \<Rightarrow>
                 (case those (map marshalValue indicatorValues) of
                    None \<Rightarrow> None
                  | Some js \<Rightarrow> Some (emptyRespStat\<lparr>Value := Doc (JArray js)\<rparr>))
             | Some a \<Rightarrow>
                 let values = valuesLoop [] indicatorValues
                 in if length values = 0 then None
                    else let respValue = aggregate a values
                         in if respValue \<noteq> NoBytes then Some (emptyRespStat\<lparr>Value := respValue\<rparr>)
                            else None)"

definition aggregateStatResponses :: "ReqStat \<Rightarrow> RespStat list \<Rightarrow> go_panic + RespStat option" where
  "aggregateStatResponses reqStat respStats =
     (if FilterPipelineIndicatorNames reqStat \<noteq> None
         \<or> FilterPluginIndicatorNames reqStat \<noteq> None
         \<or> FilterTaskIndicatorNames reqStat \<noteq> None
      then
        (let (memory, retNames) = namesLoop ({}, []) respStats
         in Inr (Some (emptyRespStat\<lparr>Names := Doc (marshalNames (Some (sort retNames)))\<rparr>)))
      else if FilterPipelineIndicatorDesc reqStat \<noteq> None
         \<or> FilterPluginIndicatorDesc reqStat \<noteq> None
         \<or> FilterTaskIndicatorDesc reqStat \<noteq> None
      then Inr (descLoop respStats)
      else if FilterPipelineIndicatorValue reqStat \<noteq> None
      then
        (case valueCase (FilterPipelineIndicatorValue reqStat) pipelineIndicatorAggregateMap
                ([], None) of
           Inl p \<Rightarrow> Inl p
         | Inr st1 \<Rightarrow>
             (case valueCase (FilterPluginIndicatorValue reqStat) pluginIndicatorAggregateMap st1 of
                Inl p \<Rightarrow> Inl p
              | Inr st2 \<Rightarrow>
                  (case valueCase (FilterTaskIndicatorValue reqStat) taskIndicatorAggregateMap st2 of
                     Inl p \<Rightarrow> Inl p
                   | Inr st3 \<Rightarrow> Inr (valueTail st3 respStats))))
      else if FilterPluginIndicatorValue reqStat \<noteq> None
      then
        (case valueCase (FilterPluginIndicatorValue reqStat) pluginIndicatorAggregateMap
                ([], None) of
           Inl p \<Rightarrow> Inl p
         | Inr st2 \<Rightarrow>
             (case valueCase (FilterTaskIndicatorValue reqStat) taskIndicatorAggregateMap st2 of
                Inl p \<Rightarrow> Inl p
              | Inr st3 \<Rightarrow> Inr (valueTail st3 respStats)))
      else if FilterTaskIndicatorValue reqStat \<noteq> None
      then
        (case valueCase (FilterTaskIndicatorValue reqStat) taskIndicatorAggregateMap ([], None) of
           Inl p \<Rightarrow> Inl p
         | Inr st3 \<Rightarrow> Inr (valueTail st3 respStats))
      else Inr None)"


section \<open>Unpacking and validating a request\<close>

text \<open>
  \<^verbatim>\<open>cluster.Unpack\<close> is the codec of the cluster package and is a parameter here:
  it gives the error text or the request it decoded. A Go \<^verbatim>\<open>error\<close> is held as
  its text. The result of \<^verbatim>\<open>unpackReqStat\<close> is the error with its kind, or the request
  (with \<^verbatim>\<open>NoneError\<close>).
\<close>

definition emptyString :: "string \<Rightarrow> bool" where
  "emptyString s = (length s = 0)"

definition unpackReqStat ::
  "(string \<Rightarrow> string + ReqStat) \<Rightarrow> string \<Rightarrow> string \<times> ClusterErrorType + ReqStat" where
  "unpackReqStat Unpack payload =
     (case Unpack payload of
        Inl err \<Rightarrow>
          Inl (''unpack '' @ payload @ '' to ReqStat failed: '' @ err, WrongMessageFormatError)
      | Inr reqStat \<Rightarrow>
        (case FilterPipelineIndicatorNames reqStat of
           Some f \<Rightarrow>
               if emptyString (PipelineName f) then Inl (''empty pipeline name in filter to retireve pipeline statistics indicator names'', InternalServerError)
               else Inr reqStat
         | None \<Rightarrow>
        (case FilterPipelineIndicatorValue reqStat of
           Some f \<Rightarrow>
               if emptyString (PipelineName f) then Inl (''empty pipeline name in filter to retrieve pipeline statistics indicator value'', InternalServerError)
               else if emptyString (IndicatorName f) then Inl (''empty indicator name in filter to retrieve pipeline statistics indicator value'', InternalServerError)
               else Inr reqStat
         | None \<Rightarrow>
        (case FilterPipelineIndicatorDesc reqStat of
           Some f \<Rightarrow>
               if emptyString (PipelineName f) then Inl (''empty pipeline name in filter to retrieve pipeline statistics indicator description'', InternalServerError)
               else if emptyString (IndicatorName f) then Inl (''empty indicator name in filter to retrieve pipeline statistics indicator description'', InternalServerError)
               else Inr reqStat
         | None \<Rightarrow>
        (case FilterPluginIndicatorNames reqStat of
           Some f \<Rightarrow>
               if emptyString (PipelineName f) then Inl (''empty pipeline name in filter to retrieve plugin statistics indicator names'', InternalServerError)
               else if emptyString (PluginName f) then Inl (''empty plugin name in filter to retrieve plugin statistics indicator names'', InternalServerError)
               else Inr reqStat
         | None \<Rightarrow>
        (case FilterPluginIndicatorValue reqStat of
           Some f \<Rightarrow>
               if emptyString (PipelineName f) then Inl (''empty pipeline name in filter to retrieve plugin statistics indicator value'', InternalServerError)
               else if emptyString (PluginName f) then Inl (''empty plugin name in filter to retrieve plugin statistics indicator value'', InternalServerError)
               else if emptyString (IndicatorName f) then Inl (''empty indicator name in filter to retrieve plugin statistics indicator value'', InternalServerError)
               else Inr reqStat
         | None \<Rightarrow>
        (case FilterPluginIndicatorDesc reqStat of
           Some f \<Rightarrow>
               if emptyString (PipelineName f) then Inl (''empty pipeline name in filter to retrieve plugin statistics indicator description'', InternalServerError)
               else if emptyString (PluginName f) then Inl (''empty plugin name in filter to retrieve plugin statistics indicator description'', InternalServerError)
               else if emptyString (IndicatorName f) then Inl (''empty indicator name in filter to retrieve plugin statistics indicator description'', InternalServerError)
               else Inr reqStat
         | None \<Rightarrow>
        (case FilterTaskIndicatorNames reqStat of
           Some f \<Rightarrow>
               if emptyString (PipelineName f) then Inl (''empty pipeline name in filter to retrieve task statistics indicator names'', InternalServerError)
               else Inr reqStat
         | None \<Rightarrow>
        (case FilterTaskIndicatorValue reqStat of
           Some f \<Rightarrow>
               if emptyString (PipelineName f) then Inl (''empty pipeline name in filter to retrieve task statistics indicator value'', InternalServerError)
               else if emptyString (IndicatorName f) then Inl (''empty indicator name in filter to retrieve task statistics indicator value'', InternalServerError)
               else Inr reqStat
         | None \<Rightarrow>
        (case FilterTaskIndicatorDesc reqStat of
           Some f \<Rightarrow>
               if emptyString (PipelineName f) then Inl (''empty pipeline name in filter to retrieve task statistics indicator description'', InternalServerError)
               else if emptyString (IndicatorName f) then Inl (''empty indicator name in filter to retrieve task statistics indicator description'', InternalServerError)
               else Inr reqStat
         | None \<Rightarrow>
             Inl (''empty statistics filter'', InternalServerError)))))))))))"


section \<open>The node and its collaborators\<close>

text \<open>
  Modelled from the spec: the cluster package is outside this file. A member has a
  name, tags and a status among alive, failed and left; reading a tag that is not
  there gives the empty string, as a Go map does.
\<close>

datatype MemberStatus = MemberAlive | MemberFailed | MemberLeft

record Member =
  NodeName :: string
  NodeTags :: "(string \<times> string) list"
  Status :: MemberStatus

definition nodeTag :: "Member \<Rightarrow> string \<Rightarrow> string" where
  "nodeTag member k = (case map_of (NodeTags member) k of None \<Rightarrow> [] | Some v \<Rightarrow> v)"

record RequestParam =
  TargetNodeNames :: "string list"
  TargetNodeTags :: "(string \<times> string) list"
  RequestTimeout :: int
  ResponseRelayCount :: nat

record RequestEvent =
  RequestName :: string
  RequestNodeName :: string
  RequestPayload :: string

text \<open>
  The statistics of one pipeline, as the registry of the model package hands them
  out: a names list may be a nil slice, a value or description comes with an error.
\<close>

record PipelineStatistics =
  PipelineIndicatorNames :: "string list option"
  PipelineIndicatorValue :: "string \<Rightarrow> string + goval"
  PipelineIndicatorDescription :: "string \<Rightarrow> string + goval"
  PluginIndicatorNames :: "string \<Rightarrow> string list option"
  PluginIndicatorValue :: "string \<Rightarrow> string \<Rightarrow> string + goval"
  PluginIndicatorDescription :: "string \<Rightarrow> string \<Rightarrow> string + goval"
  TaskIndicatorNames :: "string list option"
  TaskIndicatorValue :: "string \<Rightarrow> string + goval"
  TaskIndicatorDescription :: "string \<Rightarrow> string + goval"

text \<open>What the channel of a future and the stop channel deliver to \<^verbatim>\<open>issueStat\<close>.\<close>

datatype futureOutcome = ResponseClosed | Response string | Stopped

text \<open>
  Everything a handler reads from outside this file: the codec, the reply channel of
  the request, the registry, the membership, the transport, the random source and the
  constants of the package. \<open>recordedResp\<close> is the response book after
  \<^verbatim>\<open>recordResp\<close> has filled it, given the request name and the names the book was
  set up for, listed in the order in which \<^verbatim>\<open>range\<close> visits the map.
\<close>

record Env =
  UnpackReqStat :: "string \<Rightarrow> string + ReqStat"
  UnpackRespStat :: "string \<Rightarrow> string + RespStat"
  PackRespStat :: "RespStat option \<Rightarrow> char \<Rightarrow> string + string"
  PackReqStat :: "ReqStat \<Rightarrow> char \<Rightarrow> string + string"
  RespondError :: "string \<Rightarrow> string option"
  GetPipelineStatistics :: "string \<Rightarrow> PipelineStatistics option"
  restAliveMembersInSameGroup :: "Member list"
  localGroupName :: string
  ClusterRequestError :: "string \<Rightarrow> string \<Rightarrow> RequestParam \<Rightarrow> string option"
  recordedResp :: "string \<Rightarrow> string list \<Rightarrow> (string \<times> string) list"
  futureResponse :: futureOutcome
  ClusterMembers :: "Member list"
  randInt :: nat
  groupTagKey :: string
  modeTagKey :: string
  ReadModeString :: string
  statMessage :: char
  statRelayMessage :: char

text \<open>
  What a handler does to the outside, in order: a reply handed to \<^verbatim>\<open>req.Respond\<close>, a
  call of \<^verbatim>\<open>respondRetrieveErr\<close> (a responder of the package that is not in this file),
  a request handed to \<^verbatim>\<open>gc.cluster.Request\<close>, a line logged (the format string is
  kept, its arguments are not), and a run-time panic, which ends the trace.
\<close>

datatype event =
    Respond string
  | RespondRetrieveErr ClusterErrorType string
  | Request string string RequestParam
  | LogErrorf string
  | Panicked go_panic

section \<open>Replies\<close>

definition respondStat :: "Env \<Rightarrow> RequestEvent \<Rightarrow> RespStat option \<Rightarrow> event list" where
  "respondStat env req resp =
     (case RequestPayload req of
        [] \<Rightarrow> []
      | header # _ \<Rightarrow>
          (case PackRespStat env resp header of
             Inl err \<Rightarrow> [LogErrorf ''[BUG: pack response (header=%d) to %#v failed: %v]'']
           | Inr respBuff \<Rightarrow>
               (case RespondError env respBuff of
                  Some err \<Rightarrow>
                    [Respond respBuff, LogErrorf ''[respond request %s to member %s failed: %v]'']
                | None \<Rightarrow> [Respond respBuff])))"

definition respondStatErr :: "Env \<Rightarrow> RequestEvent \<Rightarrow> ClusterErrorType \<Rightarrow> string \<Rightarrow> event list" where
  "respondStatErr env req typ msg =
     respondStat env req (Some (emptyRespStat\<lparr>Err := Some (newClusterError msg typ)\<rparr>))"

section \<open>The local resolver\<close>

text \<open>The dynamic type of the filter handed to \<^verbatim>\<open>statResult\<close> and \<^verbatim>\<open>issueStat\<close>.\<close>

datatype filterKind =
    PipelineIndicatorNamesKind
  | PipelineIndicatorValueKind
  | PipelineIndicatorDescKind
  | PluginIndicatorNamesKind
  | PluginIndicatorValueKind
  | PluginIndicatorDescKind
  | TaskIndicatorNamesKind
  | TaskIndicatorValueKind
  | TaskIndicatorDescKind
  | UnsupportedKind

definition notFound :: "Filter \<Rightarrow> event list \<times> (string \<times> ClusterErrorType + blob)" where
  "notFound f =
     ([], Inl (''pipeline '' @ PipelineName f @ '' statistics not found'', PipelineStatNotFoundError))"

text \<open>
  The text of the error of \<^verbatim>\<open>json.Marshal\<close>: it names the first float, in the order
  of writing, that the encoder refuses.
\<close>

fun unsupportedValue :: "goval \<Rightarrow> string option" where
  "unsupportedValue (GFloat64 x) =
     (case x of Fin q \<Rightarrow> None | PInf \<Rightarrow> Some ''+Inf'' | NInf \<Rightarrow> Some ''-Inf''
      | NaN \<Rightarrow> Some ''NaN'')"
| "unsupportedValue (GSlice xs) =
     (case filter (\<lambda>r. r \<noteq> None) (map unsupportedValue xs) of [] \<Rightarrow> None | r # _ \<Rightarrow> r)"
| "unsupportedValue (GMap kvs) =
     (case filter (\<lambda>r. r \<noteq> None)
             (map snd (sort_key fst (map (\<lambda>kv. (fst kv, unsupportedValue (snd kv))) kvs))) of
        [] \<Rightarrow> None
      | r # _ \<Rightarrow> r)"
| "unsupportedValue _ = None"

definition marshalError :: "goval \<Rightarrow> string" where
  "marshalError v =
     ''json: unsupported value: '' @ (case unsupportedValue v of None \<Rightarrow> [] | Some s \<Rightarrow> s)"

text \<open>
  The last step of \<^verbatim>\<open>statResult\<close>: the result struct is marshalled; \<open>errText\<close> is
  the text of the error when that fails.
\<close>

definition marshalled ::
  "string \<Rightarrow> json option \<Rightarrow> event list \<times> (string \<times> ClusterErrorType + blob)" where
  "marshalled errText r =
     (case r of
        None \<Rightarrow>
          ([LogErrorf ''[BUG: marshal statistics result failed: %v]''],
           Inl (''marshal statistics result failed: '' @ errText, InternalServerError))
      | Some retBuff \<Rightarrow> ([], Inr (Doc retBuff)))"

definition retrieved ::
  "string + goval \<Rightarrow> string \<Rightarrow> ClusterErrorType \<Rightarrow> (goval \<Rightarrow> json option)
     \<Rightarrow> event list \<times> (string \<times> ClusterErrorType + blob)" where
  "retrieved r logFormat typ enc =
     (case r of
        Inl err \<Rightarrow> ([LogErrorf logFormat], Inl (err, typ))
      | Inr v \<Rightarrow> marshalled (marshalError v) (enc v))"

definition statResult ::
  "Env \<Rightarrow> filterKind \<Rightarrow> Filter \<Rightarrow> event list \<times> (string \<times> ClusterErrorType + blob)" where
  "statResult env kind f =
     (case kind of
        UnsupportedKind \<Rightarrow> ([], Inl (''unsupported statistics filter type'', InternalServerError))
      | _ \<Rightarrow>
        (case GetPipelineStatistics env (PipelineName f) of
           None \<Rightarrow> notFound f
         | Some stat \<Rightarrow>
             (case kind of
                PipelineIndicatorNamesKind \<Rightarrow>
                  marshalled [] (Some (marshalNames (map_option sort (PipelineIndicatorNames stat))))
              | PipelineIndicatorValueKind \<Rightarrow>
                  retrieved (PipelineIndicatorValue stat (IndicatorName f))
                    ''[retrieve the value of pipeline %s statistics indicator %s from model failed: %v]''
                    RetrievePipelineStatValueError marshalValue
              | PipelineIndicatorDescKind \<Rightarrow>
                  retrieved (PipelineIndicatorDescription stat (IndicatorName f))
                    ''[retrieve the description of pipeline %s statistics indicator %s from model failed: %v]''
                    RetrievePipelineStatDescError marshalDesc
              | PluginIndicatorNamesKind \<Rightarrow>
                  marshalled []
                    (Some (marshalNames (map_option sort (PluginIndicatorNames stat (PluginName f)))))
              | PluginIndicatorValueKind \<Rightarrow>
                  retrieved (PluginIndicatorValue stat (PluginName f) (IndicatorName f))
                    ''[retrieve the value of plugin %s statistics indicator %s in pipeline %s from model failed: %v]''
                    RetrievePluginStatValueError marshalValue
              | PluginIndicatorDescKind \<Rightarrow>
                  retrieved (PluginIndicatorDescription stat (PluginName f) (IndicatorName f))
                    ''[retrieve the description of plugin %s statistics indicator %s in pipeline %s from model failed: %v]''
                    RetrievePluginStatDescError marshalDesc
              | TaskIndicatorNamesKind \<Rightarrow>
                  marshalled [] (Some (marshalNames (map_option sort (TaskIndicatorNames stat))))
              | TaskIndicatorValueKind \<Rightarrow>
                  retrieved (TaskIndicatorValue stat (IndicatorName f))
                    ''[retrieve the value of task statistics indicator %s in pipeline %s from model failed: %v]''
                    RetrieveTaskStatValueError marshalValue
              | TaskIndicatorDescKind \<Rightarrow>
                  retrieved (TaskIndicatorDescription stat (IndicatorName f))
                    ''[retrieve the description of task statistics indicator %s in pipeline %s from model failed: %v]''
                    RetrieveTaskStatDescError marshalDesc
              | UnsupportedKind \<Rightarrow>
                  ([], Inl (''unsupported statistics filter type'', InternalServerError)))))"

text \<open>
  \<^verbatim>\<open>getLocalStatResp\<close>: the blob goes into the field of the facet; with an error the
  response is nil; with no filter at all the empty response is returned.
\<close>

definition intoNames :: "event list \<times> (string \<times> ClusterErrorType + blob)
    \<Rightarrow> event list \<times> (string \<times> ClusterErrorType + RespStat)" where
  "intoNames r = (case r of (logged, Inl e) \<Rightarrow> (logged, Inl e)
                  | (logged, Inr b) \<Rightarrow> (logged, Inr (emptyRespStat\<lparr>Names := b\<rparr>)))"

definition intoValue :: "event list \<times> (string \<times> ClusterErrorType + blob)
    \<Rightarrow> event list \<times> (string \<times> ClusterErrorType + RespStat)" where
  "intoValue r = (case r of (logged, Inl e) \<Rightarrow> (logged, Inl e)
                  | (logged, Inr b) \<Rightarrow> (logged, Inr (emptyRespStat\<lparr>Value := b\<rparr>)))"

definition intoDesc :: "event list \<times> (string \<times> ClusterErrorType + blob)
    \<Rightarrow> event list \<times> (string \<times> ClusterErrorType + RespStat)" where
  "intoDesc r = (case r of (logged, Inl e) \<Rightarrow> (logged, Inl e)
                 | (logged, Inr b) \<Rightarrow> (logged, Inr (emptyRespStat\<lparr>Desc := b\<rparr>)))"

definition getLocalStatResp ::
  "Env \<Rightarrow> ReqStat \<Rightarrow> event list \<times> (string \<times> ClusterErrorType + RespStat)" where
  "getLocalStatResp env reqStat =
     (case FilterPipelineIndicatorNames reqStat of
        Some f \<Rightarrow> intoNames (statResult env PipelineIndicatorNamesKind f)
      | None \<Rightarrow>
     (case FilterPipelineIndicatorValue reqStat of
        Some f \<Rightarrow> intoValue (statResult env PipelineIndicatorValueKind f)
      | None \<Rightarrow>
     (case FilterPipelineIndicatorDesc reqStat of
        Some f \<Rightarrow> intoDesc (statResult env PipelineIndicatorDescKind f)
      | None \<Rightarrow>
     (case FilterPluginIndicatorNames reqStat of
        Some f \<Rightarrow> intoNames (statResult env PluginIndicatorNamesKind f)
      | None \<Rightarrow>
     (case FilterPluginIndicatorValue reqStat of
        Some f \<Rightarrow> intoValue (statResult env PluginIndicatorValueKind f)
      | None \<Rightarrow>
     (case FilterPluginIndicatorDesc reqStat of
        Some f \<Rightarrow> intoDesc (statResult env PluginIndicatorDescKind f)
      | None \<Rightarrow>
     (case FilterTaskIndicatorNames reqStat of
        Some f \<Rightarrow> intoNames (statResult env TaskIndicatorNamesKind f)
      | None \<Rightarrow>
     (case FilterTaskIndicatorValue reqStat of
        Some f \<Rightarrow> intoValue (statResult env TaskIndicatorValueKind f)
      | None \<Rightarrow>
     (case FilterTaskIndicatorDesc reqStat of
        Some f \<Rightarrow> intoDesc (statResult env TaskIndicatorDescKind f)
      | None \<Rightarrow> ([], Inr emptyRespStat))))))))))"

section \<open>The handlers\<close>

definition handleStatRelay :: "Env \<Rightarrow> RequestEvent \<Rightarrow> event list" where
  "handleStatRelay env req =
     (case RequestPayload req of
        [] \<Rightarrow> []
      | header # body \<Rightarrow>
          (case unpackReqStat (UnpackReqStat env) body of
             Inl (err, errType) \<Rightarrow> respondStatErr env req errType err
           | Inr reqStat \<Rightarrow>
               (case getLocalStatResp env reqStat of
                  (logged, Inl (err, errType)) \<Rightarrow> logged @ respondStatErr env req errType err
                | (logged, Inr resp) \<Rightarrow> logged @ respondStat env req (Some resp))))"

text \<open>The loop of \<^verbatim>\<open>handleStat\<close> over the response book.\<close>

fun validRespLoop :: "Env \<Rightarrow> RespStat list \<Rightarrow> (string \<times> string) list \<Rightarrow> RespStat list" where
  "validRespLoop env validRespList [] = validRespList"
| "validRespLoop env validRespList ((memberName, payload) # book) =
     (case payload of
        [] \<Rightarrow> validRespLoop env validRespList book
      | header # body \<Rightarrow>
          (case UnpackRespStat env body of
             Inl err \<Rightarrow> validRespLoop env validRespList book
           | Inr resp \<Rightarrow>
               if Err resp \<noteq> None then validRespLoop env validRespList book
               else validRespLoop env (validRespList @ [resp]) book))"

definition handleStat :: "Env \<Rightarrow> RequestEvent \<Rightarrow> event list" where
  "handleStat env req =
     (case RequestPayload req of
        [] \<Rightarrow> []
      | header # body \<Rightarrow>
          (case unpackReqStat (UnpackReqStat env) body of
             Inl (err, errType) \<Rightarrow> respondStatErr env req errType err
           | Inr reqStat \<Rightarrow>
               (case getLocalStatResp env reqStat of
                  (logged, Inl (err, errType)) \<Rightarrow> logged @ respondStatErr env req errType err
                | (logged, Inr localResp) \<Rightarrow>
                    let requestMemberNames = map NodeName (restAliveMembersInSameGroup env);
                        requestParam =
                          \<lparr>TargetNodeNames = requestMemberNames,
                           TargetNodeTags = [(groupTagKey env, localGroupName env)],
                           RequestTimeout = Timeout reqStat,
                           ResponseRelayCount = 1\<rparr>;
                        requestName = RequestName req @ ''_relay'';
                        requestPayload = statRelayMessage env # body;
                        sent = logged @ [Request requestName requestPayload requestParam]
                    in case ClusterRequestError env requestName requestPayload requestParam of
                         Some err \<Rightarrow>
                           sent @ [LogErrorf ''[send stat relay message failed: %v]'',
                                   RespondRetrieveErr InternalServerError err]
                       | None \<Rightarrow>
                           let membersRespBook = recordedResp env requestName requestMemberNames;
                               validRespList = validRespLoop env [localResp] membersRespBook
                           in case aggregateStatResponses reqStat validRespList of
                                Inl p \<Rightarrow> sent @ [Panicked p]
                              | Inr ret \<Rightarrow>
                                  if ret \<noteq> None
                                  then sent @ [RespondRetrieveErr InternalServerError
                                         ''aggreate statistics for cluster memebers failed'']
                                  else sent @ respondStat env req ret)))"

section \<open>Choosing the entry member\<close>

text \<open>
  The members that qualify are collected as pointers to the loop variable. The release
  workflow of the repository builds with Go 1.23, and from Go 1.22 on every iteration of
  a \<^verbatim>\<open>range\<close> loop has a variable of its own, so \<^verbatim>\<open>&member\<close> is a fresh address in
  each iteration: the loop is modelled over a store in which the iteration takes the
  next free address, assigns the element to it and, when the member qualifies, keeps
  the address.
\<close>

type_synonym addr = nat

fun chooseLoop ::
  "Env \<Rightarrow> string \<Rightarrow> addr \<Rightarrow> (addr \<Rightarrow> Member option) \<times> addr list \<times> addr list \<Rightarrow> Member list
     \<Rightarrow> (addr \<Rightarrow> Member option) \<times> addr list \<times> addr list" where
  "chooseLoop env grp fresh (st, readMembers, writeMembers) [] = (st, readMembers, writeMembers)"
| "chooseLoop env grp fresh (st, readMembers, writeMembers) (m # totalMembers) =
     (let st' = st(fresh \<mapsto> m)
      in if nodeTag m (groupTagKey env) = grp \<and> Status m = MemberAlive
         then if nodeTag m (modeTagKey env) = ReadModeString env
              then chooseLoop env grp (Suc fresh) (st', readMembers @ [fresh], writeMembers)
                     totalMembers
              else chooseLoop env grp (Suc fresh) (st', readMembers, writeMembers @ [fresh])
                     totalMembers
         else chooseLoop env grp (Suc fresh) (st', readMembers, writeMembers) totalMembers)"

text \<open>The result is the error text, or the pointer chosen and the store it points into.\<close>

definition chooseMemberToAggregateStat ::
  "Env \<Rightarrow> string \<Rightarrow> string + addr \<times> (addr \<Rightarrow> Member option)" where
  "chooseMemberToAggregateStat env grp =
     (let (st, readMembers, writeMembers) =
            chooseLoop env grp 0 (Map.empty, [], []) (ClusterMembers env)
      in if length readMembers > 0
         then Inr (readMembers ! (randInt env mod length readMembers), st)
         else if length writeMembers > 0
         then Inr (writeMembers ! (randInt env mod length writeMembers), st)
         else Inl ''none of members is alive to aggregate statistics'')"

section \<open>Issuing a query from the API\<close>

definition emptyReqStat :: "int \<Rightarrow> ReqStat" where
  "emptyReqStat timeout =
     \<lparr>Timeout = timeout,
      FilterPipelineIndicatorNames = None, FilterPipelineIndicatorValue = None,
      FilterPipelineIndicatorDesc = None, FilterPluginIndicatorNames = None,
      FilterPluginIndicatorValue = None, FilterPluginIndicatorDesc = None,
      FilterTaskIndicatorNames = None, FilterTaskIndicatorValue = None,
      FilterTaskIndicatorDesc = None\<rparr>"

fun requestOf :: "int \<Rightarrow> filterKind \<Rightarrow> Filter \<Rightarrow> ReqStat option" where
  "requestOf timeout PipelineIndicatorNamesKind f =
     Some ((emptyReqStat timeout)\<lparr>FilterPipelineIndicatorNames := Some f\<rparr>)"
| "requestOf timeout PipelineIndicatorValueKind f =
     Some ((emptyReqStat timeout)\<lparr>FilterPipelineIndicatorValue := Some f\<rparr>)"
| "requestOf timeout PipelineIndicatorDescKind f =
     Some ((emptyReqStat timeout)\<lparr>FilterPipelineIndicatorDesc := Some f\<rparr>)"
| "requestOf timeout PluginIndicatorNamesKind f =
     Some ((emptyReqStat timeout)\<lparr>FilterPluginIndicatorNames := Some f\<rparr>)"
| "requestOf timeout PluginIndicatorValueKind f =
     Some ((emptyReqStat timeout)\<lparr>FilterPluginIndicatorValue := Some f\<rparr>)"
| "requestOf timeout PluginIndicatorDescKind f =
     Some ((emptyReqStat timeout)\<lparr>FilterPluginIndicatorDesc := Some f\<rparr>)"
| "requestOf timeout TaskIndicatorNamesKind f =
     Some ((emptyReqStat timeout)\<lparr>FilterTaskIndicatorNames := Some f\<rparr>)"
| "requestOf timeout TaskIndicatorValueKind f =
     Some ((emptyReqStat timeout)\<lparr>FilterTaskIndicatorValue := Some f\<rparr>)"
| "requestOf timeout TaskIndicatorDescKind f =
     Some ((emptyReqStat timeout)\<lparr>FilterTaskIndicatorDesc := Some f\<rparr>)"
| "requestOf timeout UnsupportedKind f = None"

fun resultField :: "filterKind \<Rightarrow> RespStat \<Rightarrow> blob" where
  "resultField PipelineIndicatorNamesKind resp = Names resp"
| "resultField PipelineIndicatorValueKind resp = Value resp"
| "resultField PipelineIndicatorDescKind resp = Desc resp"
| "resultField PluginIndicatorNamesKind resp = Names resp"
| "resultField PluginIndicatorValueKind resp = Value resp"
| "resultField PluginIndicatorDescKind resp = Desc resp"
| "resultField TaskIndicatorNamesKind resp = Names resp"
| "resultField TaskIndicatorValueKind resp = Value resp"
| "resultField TaskIndicatorDescKind resp = Desc resp"
| "resultField UnsupportedKind resp = NoBytes"

definition failed :: "string \<Rightarrow> ClusterErrorType \<Rightarrow> (ClusterError + blob) option" where
  "failed msg typ = Some (Inl (newClusterError msg typ))"

text \<open>
  The result of \<^verbatim>\<open>issueStat\<close> is what it did and what it returned: the error or the
  blob, or nothing when it panicked. In a message, a format verb for anything but a
  string or an error is left as it is written.
\<close>

definition issueStat ::
  "Env \<Rightarrow> string \<Rightarrow> int \<Rightarrow> string \<Rightarrow> filterKind \<Rightarrow> Filter
     \<Rightarrow> event list \<times> (ClusterError + blob) option" where
  "issueStat env grp timeout requestName kind f =
     (case requestOf timeout kind f of
        None \<Rightarrow> ([], failed ''unsupported statistics filter type %T'' InternalServerError)
      | Some req \<Rightarrow>
     (case PackReqStat env req (statMessage env) of
        Inl err \<Rightarrow>
          ([LogErrorf ''[BUG: pack request (header=%d) to %#v failed: %v]''],
           failed (''pack request (header=%d) to %#v failed: '' @ err) InternalServerError)
      | Inr requestPayload \<Rightarrow>
     (case chooseMemberToAggregateStat env grp of
        Inl err \<Rightarrow>
          ([], failed (''choose member to aggregate statistics failed: '' @ err)
                 InternalServerError)
      | Inr (targetPtr, st) \<Rightarrow>
     (case st targetPtr of
        None \<Rightarrow> ([Panicked NilPointerDereference], None)
      | Some targetMember \<Rightarrow>
          let requestParam =
                \<lparr>TargetNodeNames = [NodeName targetMember],
                 TargetNodeTags =
                   [(groupTagKey env, grp),
                    (modeTagKey env, nodeTag targetMember (modeTagKey env))],
                 RequestTimeout = timeout,
                 ResponseRelayCount = 1\<rparr>;
              sent = [Request requestName requestPayload requestParam]
          in case ClusterRequestError env requestName requestPayload requestParam of
               Some err \<Rightarrow>
                 (sent, failed (''issue statistics aggregation failed: '' @ err)
                          InternalServerError)
             | None \<Rightarrow>
                 (case futureResponse env of
                    ResponseClosed \<Rightarrow>
                      (sent, failed ''issue statistics aggregation timeout'' TimeoutError)
                  | Stopped \<Rightarrow>
                      (sent, failed ''the member gone during issuing statistics aggregation''
                               IssueMemberGoneError)
                  | Response payload \<Rightarrow>
                      (case payload of
                         [] \<Rightarrow>
                           (sent, failed ''issue statistics aggregation responds empty response''
                                    InternalServerError)
                       | header # body \<Rightarrow>
                           (case UnpackRespStat env body of
                              Inl err \<Rightarrow>
                                (sent, failed (''unpack statistics aggregation response failed: ''
                                               @ err) InternalServerError)
                            | Inr resp \<Rightarrow>
                                (case Err resp of
                                   Some e \<Rightarrow> (sent, Some (Inl e))
                                 | None \<Rightarrow>
                                     let ret = resultField kind resp
                                     in if ret = NoBytes
                                        then (sent,
                                          failed ''issue statistics aggregation responds invalid result''
                                            InternalServerError)
                                        else (sent, Some (Inr ret))))))))))"


section \<open>Notions used to state the properties\<close>

text \<open>
  The required selectors of the specification (its table of scopes and facets): a
  request misses a selector when no filter is set, or when a filter that is set has an
  empty pipeline name, an empty plugin name (plugin scope) or an empty indicator name
  (value and description facets). \<open>filtersSet\<close> counts the filters that are set.
\<close>

definition isSet :: "Filter option \<Rightarrow> nat" where
  "isSet f = (case f of None \<Rightarrow> 0 | Some _ \<Rightarrow> 1)"

definition filtersSet :: "ReqStat \<Rightarrow> nat" where
  "filtersSet r =
     isSet (FilterPipelineIndicatorNames r) + isSet (FilterPipelineIndicatorValue r)
     + isSet (FilterPipelineIndicatorDesc r) + isSet (FilterPluginIndicatorNames r)
     + isSet (FilterPluginIndicatorValue r) + isSet (FilterPluginIndicatorDesc r)
     + isSet (FilterTaskIndicatorNames r) + isSet (FilterTaskIndicatorValue r)
     + isSet (FilterTaskIndicatorDesc r)"

definition lacks :: "Filter option \<Rightarrow> (Filter \<Rightarrow> string) list \<Rightarrow> bool" where
  "lacks f required = (case f of None \<Rightarrow> False | Some x \<Rightarrow> list_ex (\<lambda>sel. sel x = []) required)"

definition missingSelector :: "ReqStat \<Rightarrow> bool" where
  "missingSelector r =
     (filtersSet r = 0
      \<or> lacks (FilterPipelineIndicatorNames r) [PipelineName]
      \<or> lacks (FilterPipelineIndicatorValue r) [PipelineName, IndicatorName]
      \<or> lacks (FilterPipelineIndicatorDesc r) [PipelineName, IndicatorName]
      \<or> lacks (FilterPluginIndicatorNames r) [PipelineName, PluginName]
      \<or> lacks (FilterPluginIndicatorValue r) [PipelineName, PluginName, IndicatorName]
      \<or> lacks (FilterPluginIndicatorDesc r) [PipelineName, PluginName, IndicatorName]
      \<or> lacks (FilterTaskIndicatorNames r) [PipelineName]
      \<or> lacks (FilterTaskIndicatorValue r) [PipelineName, IndicatorName]
      \<or> lacks (FilterTaskIndicatorDesc r) [PipelineName, IndicatorName])"

text \<open>A member that qualifies for a group: it carries the group tag and is alive.\<close>

definition candidate :: "Env \<Rightarrow> string \<Rightarrow> Member \<Rightarrow> bool" where
  "candidate env grp m \<longleftrightarrow> nodeTag m (groupTagKey env) = grp \<and> Status m = MemberAlive"

text \<open>
  The members among which the selector chooses: those that qualify and carry the mode
  tag of read mode, and those that qualify and carry any other mode tag, which the code
  takes as write mode.
\<close>

definition readCandidates :: "Env \<Rightarrow> string \<Rightarrow> Member list" where
  "readCandidates env grp =
     filter (\<lambda>m. candidate env grp m \<and> nodeTag m (modeTagKey env) = ReadModeString env)
       (ClusterMembers env)"

definition writeCandidates :: "Env \<Rightarrow> string \<Rightarrow> Member list" where
  "writeCandidates env grp =
     filter (\<lambda>m. candidate env grp m \<and> nodeTag m (modeTagKey env) \<noteq> ReadModeString env)
       (ClusterMembers env)"

text \<open>An outbound cluster request in a trace.\<close>

fun isRequest :: "event \<Rightarrow> bool" where
  "isRequest (Request name payload param) = True"
| "isRequest _ = False"

section \<open>A sample node\<close>

text \<open>
  A concrete node on which the handlers are evaluated: a group \<^verbatim>\<open>g\<close> of the local
  node and the peer \<^verbatim>\<open>n2\<close>, one pipeline \<^verbatim>\<open>p\<close>, a codec that knows a few request
  and response bodies by name, and a transport that delivers.
\<close>

definition sampleFilter :: "string \<Rightarrow> string \<Rightarrow> Filter" where
  "sampleFilter pipeline indicator =
     \<lparr>PipelineName = pipeline, PluginName = [], IndicatorName = indicator\<rparr>"

definition sampleStat :: PipelineStatistics where
  "sampleStat =
     \<lparr>PipelineIndicatorNames = Some [''b'', ''a''],
      PipelineIndicatorValue =
        (\<lambda>name. if name = ''EXECUTION_COUNT_ALL'' then Inr (GInt64 17)
                else Inl ''no such indicator''),
      PipelineIndicatorDescription =
        (\<lambda>name. if name = ''EXECUTION_COUNT_ALL'' then Inr GNil
                else Inl ''no such indicator''),
      PluginIndicatorNames = (\<lambda>plugin. None),
      PluginIndicatorValue = (\<lambda>plugin name. Inl ''no such plugin''),
      PluginIndicatorDescription = (\<lambda>plugin name. Inl ''no such plugin''),
      TaskIndicatorNames = Some [],
      TaskIndicatorValue = (\<lambda>name. Inl ''no such indicator''),
      TaskIndicatorDescription = (\<lambda>name. Inl ''no such indicator'')\<rparr>"

definition sampleUnpackReqStat :: "string \<Rightarrow> string + ReqStat" where
  "sampleUnpackReqStat body =
     (if body = ''names''
      then Inr ((emptyReqStat 1000)\<lparr>FilterPipelineIndicatorNames := Some (sampleFilter ''p'' [])\<rparr>)
      else if body = ''desc''
      then Inr ((emptyReqStat 1000)\<lparr>FilterPipelineIndicatorDesc :=
                  Some (sampleFilter ''p'' ''EXECUTION_COUNT_ALL'')\<rparr>)
      else if body = ''absent''
      then Inr ((emptyReqStat 1000)\<lparr>FilterPipelineIndicatorNames := Some (sampleFilter ''q'' [])\<rparr>)
      else if body = ''unnamed''
      then Inr ((emptyReqStat 1000)\<lparr>FilterPipelineIndicatorNames := Some (sampleFilter [] [])\<rparr>)
      else Inl ''malformed request'')"

definition sampleUnpackRespStat :: "string \<Rightarrow> string + RespStat" where
  "sampleUnpackRespStat body =
     (if body = ''peer names''
      then Inr (emptyRespStat\<lparr>Names :=
             Doc (JObject [(''Names'', JArray [JString ''a'', JString ''c''])])\<rparr>)
      else Inl ''malformed response'')"

definition samplePackRespStat :: "RespStat option \<Rightarrow> char \<Rightarrow> string + string" where
  "samplePackRespStat resp header =
     Inr (header #
       (case resp of
          None \<Rightarrow> ''nil''
        | Some r \<Rightarrow>
            (case Err r of
               Some e \<Rightarrow> ''error: '' @ Message e
             | None \<Rightarrow> ''result'')))"

definition samplePeer :: Member where
  "samplePeer =
     \<lparr>NodeName = ''n2'', NodeTags = [(''group'', ''g''), (''mode'', ''write'')],
      Status = MemberAlive\<rparr>"

definition sampleEnv :: Env where
  "sampleEnv =
     \<lparr>UnpackReqStat = sampleUnpackReqStat,
      UnpackRespStat = sampleUnpackRespStat,
      PackRespStat = samplePackRespStat,
      PackReqStat = (\<lambda>req header. Inr (header # ''request'')),
      RespondError = (\<lambda>respBuff. None),
      GetPipelineStatistics = (\<lambda>name. if name = ''p'' then Some sampleStat else None),
      restAliveMembersInSameGroup = [samplePeer],
      localGroupName = ''g'',
      ClusterRequestError = (\<lambda>name payload param. None),
      recordedResp = (\<lambda>name names. [(''n2'', ''Rpeer names'')]),
      futureResponse = ResponseClosed,
      ClusterMembers =
        [\<lparr>NodeName = ''n1'', NodeTags = [(''group'', ''g''), (''mode'', ''read'')],
          Status = MemberAlive\<rparr>,
         \<lparr>NodeName = ''n3'', NodeTags = [(''group'', ''h''), (''mode'', ''write'')],
          Status = MemberFailed\<rparr>],
      randInt = 0,
      groupTagKey = ''group'',
      modeTagKey = ''mode'',
      ReadModeString = ''read'',
      statMessage = CHR ''S'',
      statRelayMessage = CHR ''R''\<rparr>"

definition sampleRequest :: "string \<Rightarrow> RequestEvent" where
  "sampleRequest payload =
     \<lparr>RequestName = ''stat'', RequestNodeName = ''api'', RequestPayload = payload\<rparr>"

section \<open>The names facet\<close>


lemma namesInnerLoop_inv:
  assumes "distinct retNames"
  shows "fst (namesInnerLoop (set retNames, retNames) names)
           = set (snd (namesInnerLoop (set retNames, retNames) names))
       \<and> distinct (snd (namesInnerLoop (set retNames, retNames) names))
       \<and> set (snd (namesInnerLoop (set retNames, retNames) names)) = set retNames \<union> set names"
  using assms
proof (induction names arbitrary: retNames)
  case Nil
  then show ?case by simp
next
  case (Cons name names)
  show ?case
  proof (cases "name \<in> set retNames")
    case True
    with Cons.IH [OF Cons.prems] show ?thesis by auto
  next
    case False
    have eq: "insert name (set retNames) = set (retNames @ [name])" by simp
    have d: "distinct (retNames @ [name])" using False Cons.prems by simp
    have step: "namesInnerLoop (set retNames, retNames) (name # names)
        = namesInnerLoop (set (retNames @ [name]), retNames @ [name]) names"
      using False by (simp only: namesInnerLoop.simps eq if_True not_False_eq_True)
    from Cons.IH [OF d] show ?thesis unfolding step by auto
  qed
qed

lemma namesLoop_inv:
  assumes "memory = set retNames" and "distinct retNames"
  shows "distinct (snd (namesLoop (memory, retNames) respStats))
       \<and> set (snd (namesLoop (memory, retNames) respStats))
           = set retNames \<union> (\<Union>resp\<in>set respStats.
               case unmarshalNames (Names resp) of None \<Rightarrow> {} | Some ns \<Rightarrow> set ns)"
  using assms
proof (induction respStats arbitrary: memory retNames)
  case Nil
  then show ?case by simp
next
  case (Cons resp respStats)
  show ?case
  proof (cases "unmarshalNames (Names resp)")
    case None
    with Cons show ?thesis by simp
  next
    case (Some ns)
    obtain m' r' where st: "namesInnerLoop (memory, retNames) ns = (m', r')"
      by (cases "namesInnerLoop (memory, retNames) ns")
    from namesInnerLoop_inv [OF Cons.prems(2), of ns] st Cons.prems(1)
    have inv: "m' = set r'" "distinct r'" "set r' = set retNames \<union> set ns" by simp_all
    from Cons.IH [OF inv(1) inv(2)] Some st inv(3)
    show ?thesis by auto
  qed
qed

lemma decodeStrings_JString: "decodeStrings cur (map JString ns) = Some ns"
  by (induction ns arbitrary: cur) simp_all

lemma equalFold_refl: "equalFold s s"
  by (simp add: equalFold_def)

lemma unmarshalNames_marshalNames: "unmarshalNames (Doc (marshalNames (Some ns))) = Some ns"
  by (simp add: marshalNames_def equalFold_refl decodeStrings_JString)

text \<open>
  Claim C6. For a request whose facet is Names (one of the three names filters is set)
  and any list of partial responses, the combiner returns a response whose names blob
  holds a list that reads back as written, is sorted in the lexicographic order of
  strings, has no duplicates, and has as its elements exactly the names of the partials
  whose names blob decodes; a partial that fails to decode contributes nothing.
\<close>

theorem names_aggregate:
  assumes "FilterPipelineIndicatorNames reqStat \<noteq> None
         \<or> FilterPluginIndicatorNames reqStat \<noteq> None
         \<or> FilterTaskIndicatorNames reqStat \<noteq> None"
  shows "\<exists>names.
           aggregateStatResponses reqStat respStats
             = Inr (Some (emptyRespStat\<lparr>Names := Doc (marshalNames (Some names))\<rparr>))
         \<and> unmarshalNames (Doc (marshalNames (Some names))) = Some names
         \<and> sorted names \<and> distinct names
         \<and> set names = (\<Union>resp\<in>set respStats.
               case unmarshalNames (Names resp) of None \<Rightarrow> {} | Some ns \<Rightarrow> set ns)"
proof -
  obtain m r where st: "namesLoop ({}, []) respStats = (m, r)"
    by (cases "namesLoop ({}, []) respStats")
  from namesLoop_inv [of "{}" "[]" respStats] st
  have inv: "distinct r" "set r = (\<Union>resp\<in>set respStats.
               case unmarshalNames (Names resp) of None \<Rightarrow> {} | Some ns \<Rightarrow> set ns)" by simp_all
  have res: "aggregateStatResponses reqStat respStats
      = Inr (Some (emptyRespStat\<lparr>Names := Doc (marshalNames (Some (sort r)))\<rparr>))"
    using assms st by (simp add: aggregateStatResponses_def)
  show ?thesis
    apply (rule exI [of _ "sort r"])
    using res inv by (simp add: unmarshalNames_marshalNames)
qed


theorem names_aggregate_witness:
  "FilterPipelineIndicatorNames
     ((emptyReqStat 1000)\<lparr>FilterPipelineIndicatorNames :=
        Some \<lparr>PipelineName = ''p'', PluginName = [], IndicatorName = []\<rparr>\<rparr>) \<noteq> None
   \<and> (\<exists>names.
         aggregateStatResponses
           ((emptyReqStat 1000)\<lparr>FilterPipelineIndicatorNames :=
              Some \<lparr>PipelineName = ''p'', PluginName = [], IndicatorName = []\<rparr>\<rparr>)
           [emptyRespStat\<lparr>Names := Doc (JObject [(''Names'', JArray [JString ''a'', JString ''c''])])\<rparr>,
            emptyRespStat\<lparr>Names := Doc (JObject [(''names'', JArray [JString ''b'', JString ''a''])])\<rparr>,
            emptyRespStat\<lparr>Names := Garbage\<rparr>]
           = Inr (Some (emptyRespStat\<lparr>Names := Doc (marshalNames (Some names))\<rparr>))
       \<and> sorted names \<and> distinct names \<and> set names = {''a'', ''b'', ''c''})"
proof -
  let ?req = "(emptyReqStat 1000)\<lparr>FilterPipelineIndicatorNames :=
        Some \<lparr>PipelineName = ''p'', PluginName = [], IndicatorName = []\<rparr>\<rparr>"
  have h: "FilterPipelineIndicatorNames ?req \<noteq> None
         \<or> FilterPluginIndicatorNames ?req \<noteq> None
         \<or> FilterTaskIndicatorNames ?req \<noteq> None"
    by simp
  have f1: "equalFold ''Names'' namesKey" by (simp add: equalFold_def namesKey_def)
  have f2: "equalFold ''names'' namesKey"
    by code_simp
  show ?thesis
    using names_aggregate [OF h,
      of "[emptyRespStat\<lparr>Names := Doc (JObject [(''Names'', JArray [JString ''a'', JString ''c''])])\<rparr>,
           emptyRespStat\<lparr>Names := Doc (JObject [(''names'', JArray [JString ''b'', JString ''a''])])\<rparr>,
           emptyRespStat\<lparr>Names := Garbage\<rparr>]"]
    by (simp add: f1 f2 emptyRespStat_def insert_commute) blast
qed

section \<open>The sum reducer\<close>


lemma ilog2_pow2: "ilog2 (2 ^ n) = int n"
proof (induction n)
  case 0
  show ?case by (simp add: ilog2.simps)
next
  case (Suc n)
  have "\<not> (2::int) ^ n < 1" by (simp add: not_less)
  then have "ilog2 (2 ^ Suc n) = 1 + ilog2 (2 ^ n)"
    using ilog2.simps [of "2 ^ Suc n"] by simp
  with Suc show ?case by simp
qed

lemma quotient_of_pow2: "quotient_of (2 ^ n) = (2 ^ n, 1)"
proof -
  have "quotient_of (of_int (2 ^ n)) = (2 ^ n, 1)"
    by (simp only: of_int_rat quotient_of_Fract) simp
  then show ?thesis by simp
qed

lemma round_half_even_mult: "0 < b \<Longrightarrow> round_half_even (c * b) b = c"
  by (simp add: round_half_even_def)

lemma f64_round_pow2:
  assumes "52 \<le> n"
  shows "f64_round (2 ^ n) = (if n < 1024 then Fin (2 ^ n) else PInf)"
proof -
  define d where "d = n - 52"
  have n: "n = 52 + d" using assms by (simp add: d_def)
  have q: "quotient_of \<bar>2 ^ n :: rat\<bar> = (2 ^ n, 1)"
    by (simp add: quotient_of_pow2)
  have il1: "ilog2 1 = 0" by (simp add: ilog2.simps)
  have fl: "floor_log2 (2 ^ n) 1 = int n"
    by (simp add: floor_log2_def ilog2_pow2 il1 Let_def)
  have k: "max (int n) (- 1022) - 52 = int d" using assms by (simp add: d_def)
  have split: "(2::int) ^ n = 2 ^ 52 * 2 ^ d"
    unfolding n by (rule power_add)
  have m: "round_half_even (2 ^ n) (2 ^ d) = 2 ^ 52"
    unfolding split by (rule round_half_even_mult) simp
  have lt: "(2::int) ^ 1024 \<le> 2 ^ 52 * 2 ^ d \<longleftrightarrow> \<not> n < 1024"
  proof -
    have "(2::int) ^ 1024 \<le> 2 ^ n \<longleftrightarrow> 1024 \<le> n"
      by (rule power_increasing_iff) simp
    then show ?thesis unfolding split by auto
  qed
  have r: "rat_of_int (2 ^ 52) * power_int 2 (int d) = 2 ^ n"
    unfolding n by (simp only: power_int_of_nat power_add of_int_power of_int_numeral)
  have nz: "(2::rat) ^ n \<noteq> 0" by simp
  have pos: "(0::rat) < 2 ^ n" by simp
  have sg: "sgn ((2::rat) ^ n) = 1" by simp
  show ?thesis
    unfolding f64_round_def q
    by (simp only: Let_def prod.case fl k m nat_int nz pos sg lt r if_True if_False
        of_nat_0_le_iff simp_thms mult_1 mult.assoc split: if_splits) blast
qed


lemma sumInt64Loop_eq:
  "sumInt64Loop (a, h) vs =
     (a + sum_list (List.map_filter unmarshalInt64 vs), h \<or> List.map_filter unmarshalInt64 vs \<noteq> [])"
  by (induction vs arbitrary: a h) (auto simp: List.map_filter_simps split: option.splits)

lemma sumUint64Loop_eq:
  "sumUint64Loop (a, h) vs =
     (a + sum_list (List.map_filter unmarshalUint64 vs), h \<or> List.map_filter unmarshalUint64 vs \<noteq> [])"
  by (induction vs arbitrary: a h) (auto simp: List.map_filter_simps split: option.splits)

lemma sumFloat64Loop_eq:
  "sumFloat64Loop (a, h) vs =
     (foldl f64_add a (List.map_filter unmarshalFloat64 vs), h \<or> List.map_filter unmarshalFloat64 vs \<noteq> [])"
  by (induction vs arbitrary: a h) (auto simp: List.map_filter_simps split: option.splits)

lemma map_filter_Nil_iff: "List.map_filter f xs = [] \<longleftrightarrow> (\<forall>x\<in>set xs. f x = None)"
  by (induction xs) (auto simp: List.map_filter_simps split: option.splits)

lemma word_of_int_sum_list_sint: "word_of_int (sum_list (map sint ws)) = sum_list (ws :: 'a::len word list)"
  by (induction ws) simp_all

lemma word_of_int_sum_list_uint: "word_of_int (sum_list (map uint ws)) = sum_list (ws :: 'a::len word list)"
  by (induction ws) simp_all

lemma sint_sum_list64:
  "sint (sum_list (ws :: 64 word list)) = (sum_list (map sint ws) + 2 ^ 63) mod 2 ^ 64 - 2 ^ 63"
proof -
  have "sint (sum_list ws) = sint (word_of_int (sum_list (map sint ws)) :: 64 word)"
    by (simp only: word_of_int_sum_list_sint)
  also have "\<dots> = signed_take_bit 63 (sum_list (map sint ws))"
    by (simp add: sint_sbintrunc')
  also have "\<dots> = (sum_list (map sint ws) + 2 ^ 63) mod 2 ^ 64 - 2 ^ 63"
    by (simp add: signed_take_bit_eq_take_bit_shift take_bit_eq_mod)
  finally show ?thesis .
qed

lemma uint_sum_list64:
  "uint (sum_list (ws :: 64 word list)) = sum_list (map uint ws) mod 2 ^ 64"
proof -
  have "uint (sum_list ws) = uint (word_of_int (sum_list (map uint ws)) :: 64 word)"
    by (simp only: word_of_int_sum_list_uint)
  also have "\<dots> = sum_list (map uint ws) mod 2 ^ 64"
    by (simp add: uint_word_of_int take_bit_eq_mod)
  finally show ?thesis .
qed


lemma unmarshalFloat64_big:
  "unmarshalFloat64 (Doc (JNumber (IntLit False (2 ^ 1023)))) = Some (Fin (2 ^ 1023))"
proof -
  have v: "number_value (IntLit False (2 ^ 1023)) = 2 ^ 1023"
    by (simp only: number_value.simps if_False of_nat_power of_nat_numeral)
  have r: "f64_round (2 ^ 1023) = Fin (2 ^ 1023)"
    using f64_round_pow2 [of 1023] by simp
  show ?thesis
    by (simp only: unmarshalFloat64.simps v r f64.case)
qed

lemma f64_add_big: "f64_add (f64_add (Fin 0) (Fin (2 ^ 1023))) (Fin (2 ^ 1023)) = PInf"
proof -
  have a: "f64_add (Fin 0) (Fin (2 ^ 1023)) = Fin (2 ^ 1023)"
    using f64_round_pow2 [of 1023] by (simp only: f64_add.simps add_0) simp
  have e: "(2::rat) ^ 1023 + 2 ^ 1023 = 2 ^ 1024" by simp
  have b: "f64_round (2 ^ 1024) = PInf"
    using f64_round_pow2 [of 1024] by simp
  show ?thesis
    unfolding a by (simp only: f64_add.simps e b)
qed

text \<open>
  Claim C7, as the code has it. The sum reducer starts from 0, adds every scalar that
  decodes and skips every scalar that does not. For int64 and uint64 the sum wraps
  around modulo \<open>2 ^ 64\<close>, and the result is nil exactly when the list is empty or
  no scalar decodes. For float64 the result is nil exactly then or when the sum is an
  infinity or NaN, which the encoder refuses. The int64 counters 17, 25 and 8 give 50.
\<close>

theorem numericSum_result:
  "(numericSum Int64 values = NoBytes
      \<longleftrightarrow> values = [] \<or> (\<forall>v\<in>set values. unmarshalInt64 v = None))
 \<and> (numericSum Int64 values \<noteq> NoBytes \<longrightarrow>
      numericSum Int64 values
        = Doc (JNumber (int_lit
            ((sum_list (map sint (List.map_filter unmarshalInt64 values)) + 2 ^ 63) mod 2 ^ 64
               - 2 ^ 63))))
 \<and> (numericSum Uint64 values = NoBytes
      \<longleftrightarrow> values = [] \<or> (\<forall>v\<in>set values. unmarshalUint64 v = None))
 \<and> (numericSum Uint64 values \<noteq> NoBytes \<longrightarrow>
      numericSum Uint64 values
        = Doc (JNumber (int_lit
            (sum_list (map uint (List.map_filter unmarshalUint64 values)) mod 2 ^ 64))))
 \<and> (let total = foldl f64_add (Fin 0) (List.map_filter unmarshalFloat64 values)
    in (numericSum Float64 values = NoBytes
          \<longleftrightarrow> values = [] \<or> (\<forall>v\<in>set values. unmarshalFloat64 v = None)
              \<or> IsInf total \<or> IsNaN total)
     \<and> (numericSum Float64 values \<noteq> NoBytes \<longrightarrow>
          numericSum Float64 values = bytes_of (marshalFloat64 total)))
 \<and> numericSum Int64
      [Doc (JNumber (IntLit False 17)), Doc (JNumber (IntLit False 25)),
       Doc (JNumber (IntLit False 8))]
      = Doc (JNumber (IntLit False 50))"
proof -
  have i: "numericSum Int64 values =
      (if List.map_filter unmarshalInt64 values = [] then NoBytes
       else Doc (marshalInt64 (sum_list (List.map_filter unmarshalInt64 values))))"
    by (cases "values") (auto simp: numericSum_def sumInt64Loop_eq List.map_filter_simps)
  have u: "numericSum Uint64 values =
      (if List.map_filter unmarshalUint64 values = [] then NoBytes
       else Doc (marshalUint64 (sum_list (List.map_filter unmarshalUint64 values))))"
    by (cases "values") (auto simp: numericSum_def sumUint64Loop_eq List.map_filter_simps)
  have f: "numericSum Float64 values =
      (if List.map_filter unmarshalFloat64 values = [] then NoBytes
       else bytes_of (marshalFloat64
              (foldl f64_add (Fin 0) (List.map_filter unmarshalFloat64 values))))"
    by (cases "values") (auto simp: numericSum_def sumFloat64Loop_eq List.map_filter_simps)
  have m: "bytes_of (marshalFloat64 x) = NoBytes \<longleftrightarrow> IsInf x \<or> IsNaN x" for x
    by (cases x) (simp_all add: bytes_of_def marshalFloat64_def)
  have c1: "numericSum Int64 values = NoBytes
      \<longleftrightarrow> values = [] \<or> (\<forall>v\<in>set values. unmarshalInt64 v = None)"
    unfolding i by (auto simp: map_filter_Nil_iff)
  have c2: "numericSum Int64 values \<noteq> NoBytes \<longrightarrow>
      numericSum Int64 values
        = Doc (JNumber (int_lit
            ((sum_list (map sint (List.map_filter unmarshalInt64 values)) + 2 ^ 63) mod 2 ^ 64
               - 2 ^ 63)))"
    unfolding i by (simp add: marshalInt64_def sint_sum_list64)
  have c3: "numericSum Uint64 values = NoBytes
      \<longleftrightarrow> values = [] \<or> (\<forall>v\<in>set values. unmarshalUint64 v = None)"
    unfolding u by (auto simp: map_filter_Nil_iff)
  have c4: "numericSum Uint64 values \<noteq> NoBytes \<longrightarrow>
      numericSum Uint64 values
        = Doc (JNumber (int_lit
            (sum_list (map uint (List.map_filter unmarshalUint64 values)) mod 2 ^ 64)))"
    unfolding u by (simp add: marshalUint64_def uint_sum_list64)
  have c5: "let total = foldl f64_add (Fin 0) (List.map_filter unmarshalFloat64 values)
    in (numericSum Float64 values = NoBytes
          \<longleftrightarrow> values = [] \<or> (\<forall>v\<in>set values. unmarshalFloat64 v = None)
              \<or> IsInf total \<or> IsNaN total)
     \<and> (numericSum Float64 values \<noteq> NoBytes \<longrightarrow>
          numericSum Float64 values = bytes_of (marshalFloat64 total))"
    unfolding f Let_def by (auto simp: map_filter_Nil_iff m)
  have c6: "numericSum Int64
      [Doc (JNumber (IntLit False 17)), Doc (JNumber (IntLit False 25)),
       Doc (JNumber (IntLit False 8))]
      = Doc (JNumber (IntLit False 50))"
    by (simp add: numericSum_def marshalInt64_def int_lit_def)
  from c1 c2 c3 c4 c5 c6 show ?thesis by (intro conjI)
qed

theorem numericSum_result_witness:
  "numericSum Int64 [Doc (JNumber (IntLit False (2 ^ 63 - 1))), Garbage,
                     Doc (JNumber (IntLit False 1))]
     = Doc (JNumber (IntLit True (2 ^ 63)))
 \<and> numericSum Uint64 [Doc (JNumber (IntLit True 1)), Doc (JNumber (RealLit (3 / 2)))] = NoBytes
 \<and> numericSum Float64 [Doc (JNumber (RealLit (3 / 2))), Doc (JString ''x''),
                       Doc (JNumber (RealLit (5 / 2)))]
     = Doc (JNumber (IntLit False 4))"
proof -
  let ?a = "[Doc (JNumber (IntLit False (2 ^ 63 - 1))), Garbage, Doc (JNumber (IntLit False 1))]"
  let ?b = "[Doc (JNumber (IntLit True 1)), Doc (JNumber (RealLit (3 / 2)))]"
  let ?c = "[Doc (JNumber (RealLit (3 / 2))), Doc (JString ''x''), Doc (JNumber (RealLit (5 / 2)))]"
  have fl: "f64_round (3 / 2) = Fin (3 / 2)" "f64_round (5 / 2) = Fin (5 / 2)" "f64_round 4 = Fin 4"
    by code_simp+
  have a: "numericSum Int64 ?a = Doc (JNumber (IntLit True (2 ^ 63)))"
    using numericSum_result [of ?a, THEN conjunct1]
      numericSum_result [of ?a, THEN conjunct2, THEN conjunct1]
    by (simp add: List.map_filter_simps int_lit_def)
  have b: "numericSum Uint64 ?b = NoBytes"
    using numericSum_result [of ?b, THEN conjunct2, THEN conjunct2, THEN conjunct1]
    by simp
  have c: "numericSum Float64 ?c = Doc (JNumber (IntLit False 4))"
    using numericSum_result [of ?c, THEN conjunct2, THEN conjunct2, THEN conjunct2,
        THEN conjunct2, THEN conjunct1]
    by (simp add: List.map_filter_simps fl bytes_of_def marshalFloat64_def int_lit_def Let_def)
  from a b c show ?thesis by (intro conjI)
qed

theorem numericSum_float_counterexample:
  "numericSum Float64
     [Doc (JNumber (IntLit False (2 ^ 1023))), Doc (JNumber (IntLit False (2 ^ 1023)))] = NoBytes
 \<and> unmarshalFloat64 (Doc (JNumber (IntLit False (2 ^ 1023)))) = Some (Fin (2 ^ 1023))"
proof -
  have "sumFloat64Loop (Fin 0, False)
      [Doc (JNumber (IntLit False (2 ^ 1023))), Doc (JNumber (IntLit False (2 ^ 1023)))]
      = (PInf, True)"
    by (simp only: sumFloat64Loop.simps unmarshalFloat64_big option.case f64_add_big)
  then have "numericSum Float64
     [Doc (JNumber (IntLit False (2 ^ 1023))), Doc (JNumber (IntLit False (2 ^ 1023)))] = NoBytes"
    by (simp only: numericSum_def list.simps if_False numtyp.case Let_def prod.case simp_thms
        marshalFloat64_def f64.case bytes_of_def option.case)
  then show ?thesis using unmarshalFloat64_big by (intro conjI)
qed

section \<open>The description facet\<close>


lemma descLoop_find:
  "descLoop respStats =
     (case List.find (\<lambda>resp. case unmarshalDesc (Desc resp) of None \<Rightarrow> False | Some d \<Rightarrow> d \<noteq> GNil)
             respStats of
        None \<Rightarrow> None
      | Some resp \<Rightarrow> Some (emptyRespStat\<lparr>Desc := Desc resp\<rparr>))"
  by (induction respStats) (auto split: option.splits)

lemma equalFold_same: "equalFold s s"
  by (simp add: equalFold_def)

text \<open>
  Claim C2, as the code has it. For a request whose facet is Desc (no names filter and
  one of the three description filters is set) the combiner returns the description
  blob of the first partial, in the order of the list, whose description decodes
  without error to a value that is not nil, and nil when there is none. A description
  that is a string decodes to that string, which is not nil even when it is empty, so
  a partial with the description \<^verbatim>\<open>""\<close> is not skipped.
\<close>

theorem desc_aggregate:
  assumes "FilterPipelineIndicatorNames reqStat = None"
    and "FilterPluginIndicatorNames reqStat = None"
    and "FilterTaskIndicatorNames reqStat = None"
    and "FilterPipelineIndicatorDesc reqStat \<noteq> None
       \<or> FilterPluginIndicatorDesc reqStat \<noteq> None
       \<or> FilterTaskIndicatorDesc reqStat \<noteq> None"
  shows "aggregateStatResponses reqStat respStats =
           Inr (case List.find
                       (\<lambda>resp. case unmarshalDesc (Desc resp) of
                                 None \<Rightarrow> False | Some d \<Rightarrow> d \<noteq> GNil) respStats of
                  None \<Rightarrow> None
                | Some resp \<Rightarrow> Some (emptyRespStat\<lparr>Desc := Desc resp\<rparr>))
       \<and> unmarshalDesc (Doc (JObject [(descKey, JString s)])) = Some (GString s)
       \<and> GString s \<noteq> GNil"
proof -
  have "aggregateStatResponses reqStat respStats = Inr (descLoop respStats)"
    using assms by (simp add: aggregateStatResponses_def)
  moreover have "unmarshalDesc (Doc (JObject [(descKey, JString s)])) = Some (GString s)"
    by (simp add: unmarshalDesc_def equalFold_same)
  ultimately show ?thesis by (simp add: descLoop_find)
qed

theorem desc_aggregate_witness:
  "aggregateStatResponses
     ((emptyReqStat 1000)\<lparr>FilterPluginIndicatorDesc :=
        Some \<lparr>PipelineName = ''p'', PluginName = ''q'', IndicatorName = ''i''\<rparr>\<rparr>)
     [emptyRespStat\<lparr>Desc := NoBytes\<rparr>,
      emptyRespStat\<lparr>Desc := Doc (JObject [(''Desc'', JNull)])\<rparr>,
      emptyRespStat\<lparr>Desc := Doc (JObject [(''Desc'', JString ''hello'')])\<rparr>,
      emptyRespStat\<lparr>Desc := Doc (JObject [(''Desc'', JString ''world'')])\<rparr>]
   = Inr (Some (emptyRespStat\<lparr>Desc := Doc (JObject [(''Desc'', JString ''hello'')])\<rparr>))"
  using desc_aggregate [of
     "(emptyReqStat 1000)\<lparr>FilterPluginIndicatorDesc :=
        Some \<lparr>PipelineName = ''p'', PluginName = ''q'', IndicatorName = ''i''\<rparr>\<rparr>"
     "[emptyRespStat\<lparr>Desc := NoBytes\<rparr>,
      emptyRespStat\<lparr>Desc := Doc (JObject [(''Desc'', JNull)])\<rparr>,
      emptyRespStat\<lparr>Desc := Doc (JObject [(''Desc'', JString ''hello'')])\<rparr>,
      emptyRespStat\<lparr>Desc := Doc (JObject [(''Desc'', JString ''world'')])\<rparr>]"]
  by (simp add: emptyReqStat_def emptyRespStat_def unmarshalDesc_def descKey_def equalFold_def)

theorem desc_empty_string_counterexample:
  "aggregateStatResponses
     ((emptyReqStat 1000)\<lparr>FilterPipelineIndicatorDesc :=
        Some \<lparr>PipelineName = ''p'', PluginName = [], IndicatorName = ''i''\<rparr>\<rparr>)
     [emptyRespStat\<lparr>Desc := Doc (JObject [(''Desc'', JString [])])\<rparr>,
      emptyRespStat\<lparr>Desc := Doc (JObject [(''Desc'', JString ''hello'')])\<rparr>,
      emptyRespStat\<lparr>Desc := Doc (JObject [(''Desc'', JString ''world'')])\<rparr>]
   = Inr (Some (emptyRespStat\<lparr>Desc := Doc (JObject [(''Desc'', JString [])])\<rparr>))
 \<and> unmarshalDesc (Doc (JObject [(''Desc'', JString [])])) = Some (GString [])"
  by (simp add: aggregateStatResponses_def emptyReqStat_def emptyRespStat_def unmarshalDesc_def
      descKey_def equalFold_def)

section \<open>The value facet\<close>


lemma those_eq_Some: "those xs = Some ys \<longleftrightarrow> xs = map Some ys"
  by (induction xs arbitrary: ys) (auto split: option.splits)

lemma those_map_Some:
  assumes "\<And>x. x \<in> set xs \<Longrightarrow> f x \<noteq> None"
  shows "\<exists>ys. those (map f xs) = Some ys \<and> length ys = length xs"
  using assms
proof (induction xs)
  case Nil
  then show ?case by simp
next
  case (Cons x xs)
  then obtain y where "f x = Some y" by auto
  moreover from Cons obtain ys where "those (map f xs) = Some ys" "length ys = length xs" by auto
  ultimately show ?case by simp
qed

lemma snd_foldl_update:
  "snd ` set (foldl (\<lambda>m (k, v). AList.update k v m) acc kvs) \<subseteq> snd ` set acc \<union> snd ` set kvs"
proof (induction kvs arbitrary: acc)
  case Nil
  then show ?case by simp
next
  case (Cons kv kvs)
  obtain k v where kv: "kv = (k, v)" by (cases kv)
  have "snd ` set (AList.update k v acc) \<subseteq> insert v (snd ` set acc)"
    by (induction acc) auto
  with Cons [of "AList.update k v acc"] show ?case
    unfolding kv by auto
qed

lemma marshal_valueInterface: "valueInterface j = Some g \<Longrightarrow> marshal g \<noteq> None"
proof (induction j arbitrary: g rule: valueInterface.induct)
  case 1
  then show ?case by auto
next
  case (2 b)
  then show ?case by auto
next
  case (3 n)
  then show ?case by (auto simp: marshalFloat64_def split: f64.splits)
next
  case (4 s)
  then show ?case by auto
next
  case (5 xs)
  from "5.prems" obtain gs where gs: "those (map valueInterface xs) = Some gs" "g = GSlice gs"
    by auto
  then have m: "map valueInterface xs = map Some gs" by (simp add: those_eq_Some)
  have "marshal y \<noteq> None" if "y \<in> set gs" for y
  proof -
    from that have "Some y \<in> set (map valueInterface xs)" unfolding m by simp
    then obtain x where "x \<in> set xs" "valueInterface x = Some y" by auto
    then show ?thesis using "5.IH" by blast
  qed
  then obtain js where "those (map marshal gs) = Some js"
    using those_map_Some [of gs marshal] by blast
  then show ?case using gs by simp
next
  case (6 kvs)
  from "6.prems" obtain vs where vs: "those (map (\<lambda>kv. valueInterface (snd kv)) kvs) = Some vs"
    "g = GMap (foldl (\<lambda>m (k, v). AList.update k v m) [] (zip (map fst kvs) vs))"
    by auto
  let ?al = "foldl (\<lambda>m (k, v). AList.update k v m) [] (zip (map fst kvs) vs)"
  from vs have m: "map (\<lambda>kv. valueInterface (snd kv)) kvs = map Some vs"
    by (simp add: those_eq_Some)
  have ok: "marshal y \<noteq> None" if "y \<in> set vs" for y
  proof -
    from that have "Some y \<in> set (map (\<lambda>kv. valueInterface (snd kv)) kvs)" unfolding m by simp
    then obtain kv where "kv \<in> set kvs" "valueInterface (snd kv) = Some y" by auto
    then show ?thesis using "6.IH" by blast
  qed
  have "snd ` set (zip (map fst kvs) vs) \<subseteq> set vs"
    by (auto dest: set_zip_rightD)
  with snd_foldl_update [of "[]" "zip (map fst kvs) vs"]
  have "snd ` set ?al \<subseteq> set vs" by simp
  then have "marshal (snd kv) \<noteq> None" if "kv \<in> set ?al" for kv
    using that ok by auto
  then obtain js where "those (map (\<lambda>kv. marshal (snd kv)) ?al) = Some js"
    using those_map_Some [of ?al "\<lambda>kv. marshal (snd kv)"] by blast
  then show ?case using vs by simp
qed

lemma marshal_decodeInterfaceField:
  "decodeInterfaceField name cur kvs = Some g \<Longrightarrow> marshal cur \<noteq> None \<Longrightarrow> marshal g \<noteq> None"
proof (induction name cur kvs rule: decodeInterfaceField.induct)
  case (1 name cur)
  then show ?case by simp
next
  case (2 name cur k v kvs)
  then show ?case
    by (auto split: if_splits option.splits dest: marshal_valueInterface)
qed

lemma marshal_unmarshalValue: "unmarshalValue b = Some g \<Longrightarrow> marshal g \<noteq> None"
proof (cases b)
  case (Doc j)
  assume "unmarshalValue b = Some g"
  with Doc show ?thesis
    by (cases j) (auto simp: unmarshalValue_def dest: marshal_decodeInterfaceField)
qed (simp_all add: unmarshalValue_def)

lemma indicatorValuesLoop_eq:
  "indicatorValuesLoop acc respStats = acc @ List.map_filter decodedValue respStats"
  by (induction respStats arbitrary: acc)
     (auto simp: List.map_filter_simps decodedValue_def split: option.splits)

lemma marshal_decodedValue: "v \<in> set (List.map_filter decodedValue respStats) \<Longrightarrow> marshal v \<noteq> None"
  by (auto simp: List.map_filter_def decodedValue_def split: option.splits if_splits
      dest: marshal_unmarshalValue)

lemma length_map_filter: "length (List.map_filter f xs) = length (filter (\<lambda>x. f x \<noteq> None) xs)"
  by (induction xs) (auto simp: List.map_filter_simps split: option.splits)

lemma those_marshalValue:
  "those (map marshal vs) = Some js \<Longrightarrow>
   those (map marshalValue vs) = Some (map (\<lambda>j. JObject [(valueKey, j)]) js)"
  by (induction vs arbitrary: js) (auto simp: marshalValue_def split: option.splits)

lemma valueTail_unknown:
  assumes "indicatorName \<noteq> []"
  shows "\<exists>js. those (map marshal (List.map_filter decodedValue respStats)) = Some js
      \<and> valueTail (indicatorName, None) respStats
          = Some (emptyRespStat\<lparr>Value := Doc (JArray (map (\<lambda>j. JObject [(valueKey, j)]) js))\<rparr>)
      \<and> length js = length (filter (\<lambda>resp. decodedValue resp \<noteq> None) respStats)"
proof -
  obtain js where js: "those (map marshal (List.map_filter decodedValue respStats)) = Some js"
    "length js = length (List.map_filter decodedValue respStats)"
    using those_map_Some [of "List.map_filter decodedValue respStats" marshal]
      marshal_decodedValue by blast
  show ?thesis
    apply (rule exI [of _ js])
    using js assms
    by (simp add: valueTail_def indicatorValuesLoop_eq those_marshalValue length_map_filter)
qed

text \<open>
  Claim C8. For a request whose facet is Value (no names or description filter is set),
  whose indicator name is not empty and is absent from the catalog of the scope of the
  request, and for every list of partial responses: every value taken from a partial
  can be encoded, and the combiner returns the list of these values, each in the
  \<^verbatim>\<open>Value\<close> wrapper of its result struct, in the order of the partials. The length of
  the list is the number of partials with a decodable value, that is, whose value blob
  decodes without error to a value that is not nil.
\<close>

theorem value_aggregate_unknown:
  assumes "FilterPipelineIndicatorNames reqStat = None"
    and "FilterPluginIndicatorNames reqStat = None"
    and "FilterTaskIndicatorNames reqStat = None"
    and "FilterPipelineIndicatorDesc reqStat = None"
    and "FilterPluginIndicatorDesc reqStat = None"
    and "FilterTaskIndicatorDesc reqStat = None"
    and "(FilterPipelineIndicatorValue reqStat = Some f
            \<and> catalog = pipelineIndicatorAggregateMap)
       \<or> (FilterPipelineIndicatorValue reqStat = None
            \<and> FilterPluginIndicatorValue reqStat = Some f
            \<and> catalog = pluginIndicatorAggregateMap)
       \<or> (FilterPipelineIndicatorValue reqStat = None
            \<and> FilterPluginIndicatorValue reqStat = None
            \<and> FilterTaskIndicatorValue reqStat = Some f
            \<and> catalog = taskIndicatorAggregateMap)"
    and "IndicatorName f \<noteq> []"
    and "map_of catalog (IndicatorName f) = None"
  shows "\<exists>js. those (map marshal (List.map_filter decodedValue respStats)) = Some js
      \<and> aggregateStatResponses reqStat respStats
          = Inr (Some (emptyRespStat\<lparr>Value :=
              Doc (JArray (map (\<lambda>j. JObject [(valueKey, j)]) js))\<rparr>))
      \<and> length js = length (filter (\<lambda>resp. decodedValue resp \<noteq> None) respStats)"
proof -
  have "aggregateStatResponses reqStat respStats
      = Inr (valueTail (IndicatorName f, None) respStats)"
    using assms by (auto simp: aggregateStatResponses_def valueCase_def)
  with valueTail_unknown [OF assms(8), of respStats] show ?thesis by auto
qed


theorem value_aggregate_unknown_witness:
  "aggregateStatResponses
     ((emptyReqStat 1000)\<lparr>FilterPipelineIndicatorValue :=
        Some \<lparr>PipelineName = ''p'', PluginName = [], IndicatorName = ''CUSTOM_X''\<rparr>\<rparr>)
     [emptyRespStat\<lparr>Value := Doc (JObject [(''Value'', JNumber (RealLit 3))])\<rparr>,
      emptyRespStat\<lparr>Value := Garbage\<rparr>,
      emptyRespStat\<lparr>Value := Doc (JObject [(''Value'', JNull)])\<rparr>,
      emptyRespStat\<lparr>Value := Doc (JObject [(''Value'', JNumber (RealLit 4))])\<rparr>]
   = Inr (Some (emptyRespStat\<lparr>Value :=
       Doc (JArray [JObject [(''Value'', JNumber (IntLit False 3))],
                    JObject [(''Value'', JNumber (IntLit False 4))]])\<rparr>))"
proof -
  let ?f = "\<lparr>PipelineName = ''p'', PluginName = [], IndicatorName = ''CUSTOM_X''\<rparr>"
  let ?req = "(emptyReqStat 1000)\<lparr>FilterPipelineIndicatorValue := Some ?f\<rparr>"
  let ?resps = "[emptyRespStat\<lparr>Value := Doc (JObject [(''Value'', JNumber (RealLit 3))])\<rparr>,
      emptyRespStat\<lparr>Value := Garbage\<rparr>,
      emptyRespStat\<lparr>Value := Doc (JObject [(''Value'', JNull)])\<rparr>,
      emptyRespStat\<lparr>Value := Doc (JObject [(''Value'', JNumber (RealLit 4))])\<rparr>]"
  have fl: "f64_round 3 = Fin 3" "f64_round 4 = Fin 4"
    by code_simp+
  have dv: "List.map_filter decodedValue ?resps = [GFloat64 (Fin 3), GFloat64 (Fin 4)]"
    by (simp add: List.map_filter_simps decodedValue_def unmarshalValue_def valueKey_def
        equalFold_def fl emptyRespStat_def)
  have h1: "FilterPipelineIndicatorNames ?req = None" "FilterPluginIndicatorNames ?req = None"
    "FilterTaskIndicatorNames ?req = None" "FilterPipelineIndicatorDesc ?req = None"
    "FilterPluginIndicatorDesc ?req = None" "FilterTaskIndicatorDesc ?req = None"
    by (simp_all add: emptyReqStat_def)
  have h2: "(FilterPipelineIndicatorValue ?req = Some ?f
            \<and> pipelineIndicatorAggregateMap = pipelineIndicatorAggregateMap)
       \<or> (FilterPipelineIndicatorValue ?req = None
            \<and> FilterPluginIndicatorValue ?req = Some ?f
            \<and> pipelineIndicatorAggregateMap = pluginIndicatorAggregateMap)
       \<or> (FilterPipelineIndicatorValue ?req = None
            \<and> FilterPluginIndicatorValue ?req = None
            \<and> FilterTaskIndicatorValue ?req = Some ?f
            \<and> pipelineIndicatorAggregateMap = taskIndicatorAggregateMap)"
    by simp
  have h3: "IndicatorName ?f \<noteq> []" by simp
  have h4: "map_of pipelineIndicatorAggregateMap (IndicatorName ?f) = None"
    by (simp add: pipelineIndicatorAggregateMap_def)
  from value_aggregate_unknown [OF h1 h2 h3 h4, of ?resps]
  obtain js where js: "those (map marshal (List.map_filter decodedValue ?resps)) = Some js"
    and r: "aggregateStatResponses ?req ?resps
          = Inr (Some (emptyRespStat\<lparr>Value :=
              Doc (JArray (map (\<lambda>j. JObject [(valueKey, j)]) js))\<rparr>))"
    by blast
  from js have "js = [JNumber (IntLit False 3), JNumber (IntLit False 4)]"
    unfolding dv by (simp add: marshalFloat64_def int_lit_def)
  with r show ?thesis by (simp add: valueKey_def)
qed

section \<open>The handlers\<close>


lemma respondStat_no_request: "filter isRequest (respondStat env req resp) = []"
  by (simp add: respondStat_def split: list.splits sum.splits option.splits)

lemma respondStatErr_no_request: "filter isRequest (respondStatErr env req typ msg) = []"
  by (simp add: respondStatErr_def respondStat_no_request)

lemma marshalled_no_request: "filter isRequest (fst (marshalled errText r)) = []"
  by (simp add: marshalled_def split: option.splits)

lemma retrieved_no_request: "filter isRequest (fst (retrieved r logFormat typ enc)) = []"
  by (simp add: retrieved_def marshalled_no_request split: sum.splits)

lemma statResult_no_request: "filter isRequest (fst (statResult env kind f)) = []"
  by (cases kind)
     (simp_all add: statResult_def notFound_def marshalled_no_request retrieved_no_request
        split: option.splits)

lemma into_fst:
  "fst (intoNames r) = fst r" "fst (intoValue r) = fst r" "fst (intoDesc r) = fst r"
  by (simp_all add: intoNames_def intoValue_def intoDesc_def split: prod.splits sum.splits)

lemma getLocalStatResp_no_request: "filter isRequest (fst (getLocalStatResp env reqStat)) = []"
  by (simp add: getLocalStatResp_def into_fst statResult_no_request split: option.splits)

text \<open>
  Claim C9. Whatever the node and the incoming relay message, the trace of the relay
  handler holds no outbound cluster request: it only resolves locally, logs and replies.
\<close>

theorem handleStatRelay_no_request: "filter isRequest (handleStatRelay env req) = []"
proof (cases "RequestPayload req")
  case Nil
  then show ?thesis by (simp add: handleStatRelay_def)
next
  case (Cons header body)
  show ?thesis
  proof (cases "unpackReqStat (UnpackReqStat env) body")
    case (Inl e)
    with Cons show ?thesis
      by (cases e) (simp add: handleStatRelay_def respondStatErr_no_request)
  next
    case (Inr reqStat)
    obtain logged r where l: "getLocalStatResp env reqStat = (logged, r)"
      by (cases "getLocalStatResp env reqStat")
    with getLocalStatResp_no_request [of env reqStat]
    have "filter isRequest logged = []" by simp
    with Cons Inr l show ?thesis
      by (cases r)
         (auto simp: handleStatRelay_def respondStatErr_no_request respondStat_no_request)
  qed
qed

theorem handleStatRelay_no_request_witness:
  "handleStatRelay sampleEnv (sampleRequest ''Rnames'') = [Respond ''Rresult'']
 \<and> filter isRequest (handleStatRelay sampleEnv (sampleRequest ''Rnames'')) = []"
proof -
  have "handleStatRelay sampleEnv (sampleRequest ''Rnames'') = [Respond ''Rresult'']"
    by (simp add: handleStatRelay_def sampleRequest_def sampleEnv_def unpackReqStat_def
        sampleUnpackReqStat_def emptyReqStat_def sampleFilter_def emptyString_def
        getLocalStatResp_def statResult_def marshalled_def intoNames_def respondStat_def
        samplePackRespStat_def emptyRespStat_def)
  with handleStatRelay_no_request [of sampleEnv "sampleRequest ''Rnames''"]
  show ?thesis by simp
qed

text \<open>
  Claim C10. When the payload of the incoming request is empty, the entry handler and
  the relay handler return without any effect, and \<^verbatim>\<open>respondStat\<close> sends nothing: no
  reply and no error reaches the caller.
\<close>

theorem empty_payload_no_response:
  assumes "RequestPayload req = []"
  shows "handleStat env req = [] \<and> handleStatRelay env req = [] \<and> respondStat env req resp = []"
  using assms by (simp add: handleStat_def handleStatRelay_def respondStat_def)

theorem empty_payload_no_response_witness:
  "RequestPayload (sampleRequest []) = []
 \<and> handleStat sampleEnv (sampleRequest []) = []
 \<and> handleStatRelay sampleEnv (sampleRequest []) = []
 \<and> respondStat sampleEnv (sampleRequest []) (Some emptyRespStat) = []"
proof -
  have h: "RequestPayload (sampleRequest []) = []" by (simp add: sampleRequest_def)
  from empty_payload_no_response [OF h, of sampleEnv "Some emptyRespStat"] h
  show ?thesis by simp
qed

text \<open>
  Claim C4, as the code has it. When the local resolver fails on a request that was
  unpacked and validated, the entry handler replies with the error and the error kind
  of the local resolver and returns: its trace is what the resolver logged followed by
  that reply, and holds no request to the peers.
\<close>

theorem handleStat_local_failure:
  assumes "RequestPayload req = header # body"
    and "unpackReqStat (UnpackReqStat env) body = Inr reqStat"
    and "getLocalStatResp env reqStat = (logged, Inl (err, errType))"
  shows "handleStat env req = logged @ respondStatErr env req errType err
       \<and> filter isRequest (handleStat env req) = []"
proof -
  have t: "handleStat env req = logged @ respondStatErr env req errType err"
    using assms by (simp add: handleStat_def)
  from getLocalStatResp_no_request [of env reqStat] assms(3)
  have "filter isRequest logged = []" by simp
  with t show ?thesis by (simp add: respondStatErr_no_request)
qed

lemma sample_absent:
  "unpackReqStat (UnpackReqStat sampleEnv) ''absent''
     = Inr ((emptyReqStat 1000)\<lparr>FilterPipelineIndicatorNames := Some (sampleFilter ''q'' [])\<rparr>)"
  "getLocalStatResp sampleEnv
     ((emptyReqStat 1000)\<lparr>FilterPipelineIndicatorNames := Some (sampleFilter ''q'' [])\<rparr>)
     = ([], Inl (''pipeline q statistics not found'', PipelineStatNotFoundError))"
  by (simp_all add: sampleEnv_def unpackReqStat_def sampleUnpackReqStat_def emptyReqStat_def
      sampleFilter_def emptyString_def getLocalStatResp_def statResult_def notFound_def
      intoNames_def)

theorem handleStat_local_failure_witness:
  "handleStat sampleEnv (sampleRequest ''Sabsent'')
     = respondStatErr sampleEnv (sampleRequest ''Sabsent'') PipelineStatNotFoundError
         ''pipeline q statistics not found''
 \<and> filter isRequest (handleStat sampleEnv (sampleRequest ''Sabsent'')) = []"
proof -
  have p: "RequestPayload (sampleRequest ''Sabsent'') = CHR ''S'' # ''absent''"
    by (simp add: sampleRequest_def)
  show ?thesis
    by (rule handleStat_local_failure [OF p sample_absent, unfolded append_Nil])
qed

theorem handleStat_local_failure_counterexample:
  "getLocalStatResp sampleEnv
     ((emptyReqStat 1000)\<lparr>FilterPipelineIndicatorNames := Some (sampleFilter ''q'' [])\<rparr>)
     = ([], Inl (''pipeline q statistics not found'', PipelineStatNotFoundError))
 \<and> restAliveMembersInSameGroup sampleEnv = [samplePeer]
 \<and> handleStat sampleEnv (sampleRequest ''Sabsent'')
     = [Respond ''Serror: pipeline q statistics not found'']"
  by (simp add: sample_absent(2))
     (simp add: handleStat_def sampleRequest_def sampleEnv_def unpackReqStat_def
        sampleUnpackReqStat_def emptyReqStat_def sampleFilter_def emptyString_def
        getLocalStatResp_def statResult_def notFound_def intoNames_def respondStatErr_def
        respondStat_def samplePackRespStat_def emptyRespStat_def newClusterError_def)

section \<open>Validation of a request\<close>


lemma isSet_simps [simp]: "isSet None = 0" "isSet (Some f) = 1"
  by (simp_all add: isSet_def)

lemma lacks_simps [simp]:
  "lacks None sels = False"
  "lacks (Some f) [s1] \<longleftrightarrow> s1 f = []"
  "lacks (Some f) [s1, s2] \<longleftrightarrow> s1 f = [] \<or> s2 f = []"
  "lacks (Some f) [s1, s2, s3] \<longleftrightarrow> s1 f = [] \<or> s2 f = [] \<or> s3 f = []"
  by (simp_all add: lacks_def)

lemma unpackReqStat_kinds:
  assumes "Unpack payload = Inr reqStat"
    and "unpackReqStat Unpack payload = Inl (msg, t)"
  shows "t = InternalServerError"
  using assms
  by (simp add: unpackReqStat_def split: option.splits if_splits)

lemma unpackReqStat_missing:
  assumes "Unpack payload = Inr reqStat"
    and "filtersSet reqStat \<le> 1"
    and "missingSelector reqStat"
  shows "\<exists>msg. unpackReqStat Unpack payload = Inl (msg, InternalServerError)"
proof -
  have "\<exists>msg t. unpackReqStat Unpack payload = Inl (msg, t)"
    using assms
    by (cases "FilterPipelineIndicatorNames reqStat"; cases "FilterPipelineIndicatorValue reqStat";
        cases "FilterPipelineIndicatorDesc reqStat"; cases "FilterPluginIndicatorNames reqStat";
        cases "FilterPluginIndicatorValue reqStat"; cases "FilterPluginIndicatorDesc reqStat";
        cases "FilterTaskIndicatorNames reqStat"; cases "FilterTaskIndicatorValue reqStat";
        cases "FilterTaskIndicatorDesc reqStat";
        auto simp: unpackReqStat_def filtersSet_def missingSelector_def emptyString_def)
  with unpackReqStat_kinds [of Unpack payload reqStat, OF assms(1)] show ?thesis by blast
qed

lemma unpackReqStat_valid:
  assumes "Unpack payload = Inr reqStat"
    and "filtersSet reqStat = 1"
    and "\<not> missingSelector reqStat"
  shows "unpackReqStat Unpack payload = Inr reqStat"
  using assms
  by (cases "FilterPipelineIndicatorNames reqStat"; cases "FilterPipelineIndicatorValue reqStat";
      cases "FilterPipelineIndicatorDesc reqStat"; cases "FilterPluginIndicatorNames reqStat";
      cases "FilterPluginIndicatorValue reqStat"; cases "FilterPluginIndicatorDesc reqStat";
      cases "FilterTaskIndicatorNames reqStat"; cases "FilterTaskIndicatorValue reqStat";
      cases "FilterTaskIndicatorDesc reqStat";
      auto simp: unpackReqStat_def filtersSet_def missingSelector_def emptyString_def)


text \<open>
  Claim C3, as the code has it. A payload that the codec cannot unpack fails with the
  kind \<^verbatim>\<open>WrongMessageFormatError\<close>. A request that was unpacked and fails selector
  validation (no filter is set, or the one filter that is set has an empty required
  selector) fails with the kind \<^verbatim>\<open>InternalServerError\<close>, which is the kind of every
  failure after unpacking; a request with one filter and all its required selectors
  is returned.
\<close>

theorem unpackReqStat_error_kinds:
  "(case Unpack payload of
      Inl err \<Rightarrow> \<exists>msg. unpackReqStat Unpack payload = Inl (msg, WrongMessageFormatError)
    | Inr reqStat \<Rightarrow>
        (filtersSet reqStat \<le> 1 \<and> missingSelector reqStat \<longrightarrow>
           (\<exists>msg. unpackReqStat Unpack payload = Inl (msg, InternalServerError)))
      \<and> (filtersSet reqStat = 1 \<and> \<not> missingSelector reqStat \<longrightarrow>
           unpackReqStat Unpack payload = Inr reqStat)
      \<and> (\<forall>msg t. unpackReqStat Unpack payload = Inl (msg, t) \<longrightarrow> t = InternalServerError))"
proof (cases "Unpack payload")
  case (Inl err)
  then show ?thesis by (simp add: unpackReqStat_def)
next
  case (Inr reqStat)
  with unpackReqStat_missing [of Unpack payload reqStat]
    unpackReqStat_valid [of Unpack payload reqStat]
    unpackReqStat_kinds [of Unpack payload reqStat]
  show ?thesis by auto
qed

theorem unpackReqStat_error_kinds_witness:
  "unpackReqStat sampleUnpackReqStat ''unnamed''
     = Inl (''empty pipeline name in filter to retireve pipeline statistics indicator names'',
            InternalServerError)
 \<and> unpackReqStat sampleUnpackReqStat ''names''
     = Inr ((emptyReqStat 1000)\<lparr>FilterPipelineIndicatorNames := Some (sampleFilter ''p'' [])\<rparr>)
 \<and> (\<exists>msg. unpackReqStat sampleUnpackReqStat ''?'' = Inl (msg, WrongMessageFormatError))"
proof -
  have a: "filtersSet ((emptyReqStat 1000)\<lparr>FilterPipelineIndicatorNames := Some f\<rparr>) = 1" for f
    by (simp add: filtersSet_def emptyReqStat_def)
  have b: "missingSelector ((emptyReqStat 1000)\<lparr>FilterPipelineIndicatorNames := Some f\<rparr>)
      \<longleftrightarrow> PipelineName f = []" for f
    by (simp add: missingSelector_def filtersSet_def emptyReqStat_def)
  have u: "sampleUnpackReqStat ''unnamed''
      = Inr ((emptyReqStat 1000)\<lparr>FilterPipelineIndicatorNames := Some (sampleFilter [] [])\<rparr>)"
    "sampleUnpackReqStat ''names''
      = Inr ((emptyReqStat 1000)\<lparr>FilterPipelineIndicatorNames := Some (sampleFilter ''p'' [])\<rparr>)"
    "sampleUnpackReqStat ''?'' = Inl ''malformed request''"
    by (simp_all add: sampleUnpackReqStat_def)
  have 1: "\<exists>msg. unpackReqStat sampleUnpackReqStat ''unnamed'' = Inl (msg, InternalServerError)"
    using unpackReqStat_error_kinds [of sampleUnpackReqStat "''unnamed''"]
    by (simp add: u a b sampleFilter_def)
  have 2: "unpackReqStat sampleUnpackReqStat ''names''
     = Inr ((emptyReqStat 1000)\<lparr>FilterPipelineIndicatorNames := Some (sampleFilter ''p'' [])\<rparr>)"
    using unpackReqStat_error_kinds [of sampleUnpackReqStat "''names''"]
    by (simp add: u a b sampleFilter_def)
  have 3: "\<exists>msg. unpackReqStat sampleUnpackReqStat ''?'' = Inl (msg, WrongMessageFormatError)"
    using unpackReqStat_error_kinds [of sampleUnpackReqStat "''?''"]
    by (simp add: u)
  have 4: "unpackReqStat sampleUnpackReqStat ''unnamed''
     = Inl (''empty pipeline name in filter to retireve pipeline statistics indicator names'',
            InternalServerError)"
    by (simp add: unpackReqStat_def u emptyReqStat_def sampleFilter_def emptyString_def)
  from 1 2 3 4 show ?thesis by (intro conjI)
qed

theorem unpackReqStat_counterexample:
  "unpackReqStat
     (\<lambda>payload. Inr ((emptyReqStat 1000)\<lparr>FilterPluginIndicatorValue :=
        Some \<lparr>PipelineName = ''p'', PluginName = [], IndicatorName = ''i''\<rparr>\<rparr>))
     ''payload''
   = Inl (''empty plugin name in filter to retrieve plugin statistics indicator value'',
          InternalServerError)
 \<and> InternalServerError \<noteq> WrongMessageFormatError"
  by (simp add: unpackReqStat_def emptyReqStat_def emptyString_def)

section \<open>The reply of the entry handler\<close>

text \<open>
  Claim C1 fails on the code, which tests the aggregate the other way round. On the
  sample node a names request has the aggregate of the local and the peer names, and
  the entry handler answers it with the internal error for a failed aggregation; a
  description request has no aggregate (no partial has a description), and the entry
  handler packs a nil response as its reply.
\<close>

theorem handleStat_reply_inverted:
  "aggregateStatResponses
     ((emptyReqStat 1000)\<lparr>FilterPipelineIndicatorNames := Some (sampleFilter ''p'' [])\<rparr>)
     [emptyRespStat\<lparr>Names := Doc (marshalNames (Some [''a'', ''b'']))\<rparr>,
      emptyRespStat\<lparr>Names := Doc (JObject [(''Names'', JArray [JString ''a'', JString ''c''])])\<rparr>]
     = Inr (Some (emptyRespStat\<lparr>Names := Doc (marshalNames (Some [''a'', ''b'', ''c'']))\<rparr>))
 \<and> handleStat sampleEnv (sampleRequest ''Snames'')
     = [Request ''stat_relay'' ''Rnames''
          \<lparr>TargetNodeNames = [''n2''], TargetNodeTags = [(''group'', ''g'')],
           RequestTimeout = 1000, ResponseRelayCount = 1\<rparr>,
        RespondRetrieveErr InternalServerError
          ''aggreate statistics for cluster memebers failed'']
 \<and> aggregateStatResponses
     ((emptyReqStat 1000)\<lparr>FilterPipelineIndicatorDesc :=
        Some (sampleFilter ''p'' ''EXECUTION_COUNT_ALL'')\<rparr>)
     [emptyRespStat\<lparr>Desc := Doc (JObject [(''Desc'', JNull)])\<rparr>,
      emptyRespStat\<lparr>Names := Doc (JObject [(''Names'', JArray [JString ''a'', JString ''c''])])\<rparr>]
     = Inr None
 \<and> handleStat sampleEnv (sampleRequest ''Sdesc'')
     = [Request ''stat_relay'' ''Rdesc''
          \<lparr>TargetNodeNames = [''n2''], TargetNodeTags = [(''group'', ''g'')],
           RequestTimeout = 1000, ResponseRelayCount = 1\<rparr>,
        Respond ''Snil'']"
proof -
  have f: "equalFold ''Names'' ''Names''" "equalFold ''Desc'' ''Desc''"
    by (simp_all add: equalFold_def)
  have s: "sort [''b'', ''a''] = [''a'', ''b'']" "sort [''a'', ''b'', ''c''] = [''a'', ''b'', ''c'']"
    by code_simp+
  have 1: "aggregateStatResponses
     ((emptyReqStat 1000)\<lparr>FilterPipelineIndicatorNames := Some (sampleFilter ''p'' [])\<rparr>)
     [emptyRespStat\<lparr>Names := Doc (marshalNames (Some [''a'', ''b'']))\<rparr>,
      emptyRespStat\<lparr>Names := Doc (JObject [(''Names'', JArray [JString ''a'', JString ''c''])])\<rparr>]
     = Inr (Some (emptyRespStat\<lparr>Names := Doc (marshalNames (Some [''a'', ''b'', ''c'']))\<rparr>))"
    by (simp add: aggregateStatResponses_def emptyReqStat_def emptyRespStat_def marshalNames_def
        namesKey_def f s)
  have 3: "aggregateStatResponses
     ((emptyReqStat 1000)\<lparr>FilterPipelineIndicatorDesc :=
        Some (sampleFilter ''p'' ''EXECUTION_COUNT_ALL'')\<rparr>)
     [emptyRespStat\<lparr>Desc := Doc (JObject [(''Desc'', JNull)])\<rparr>,
      emptyRespStat\<lparr>Names := Doc (JObject [(''Names'', JArray [JString ''a'', JString ''c''])])\<rparr>]
     = Inr None"
    by (simp add: aggregateStatResponses_def emptyReqStat_def emptyRespStat_def unmarshalDesc_def
        descKey_def f)
  have 2: "handleStat sampleEnv (sampleRequest ''Snames'')
     = [Request ''stat_relay'' ''Rnames''
          \<lparr>TargetNodeNames = [''n2''], TargetNodeTags = [(''group'', ''g'')],
           RequestTimeout = 1000, ResponseRelayCount = 1\<rparr>,
        RespondRetrieveErr InternalServerError
          ''aggreate statistics for cluster memebers failed'']"
    using 1
    by (simp add: handleStat_def sampleRequest_def sampleEnv_def unpackReqStat_def
        sampleUnpackReqStat_def emptyString_def sampleFilter_def
        getLocalStatResp_def statResult_def marshalled_def intoNames_def sampleStat_def
        samplePeer_def sampleUnpackRespStat_def s emptyReqStat_def emptyRespStat_def)
  have 4: "handleStat sampleEnv (sampleRequest ''Sdesc'')
     = [Request ''stat_relay'' ''Rdesc''
          \<lparr>TargetNodeNames = [''n2''], TargetNodeTags = [(''group'', ''g'')],
           RequestTimeout = 1000, ResponseRelayCount = 1\<rparr>,
        Respond ''Snil'']"
    using 3
    by (simp add: handleStat_def sampleRequest_def sampleEnv_def unpackReqStat_def
        sampleUnpackReqStat_def emptyString_def sampleFilter_def
        getLocalStatResp_def statResult_def marshalled_def retrieved_def intoDesc_def
        sampleStat_def marshalDesc_def descKey_def
        samplePeer_def sampleUnpackRespStat_def emptyReqStat_def emptyRespStat_def
        respondStat_def samplePackRespStat_def)
  from 1 2 3 4 show ?thesis by (intro conjI)
qed

theorem handleStat_reply_inverted_witness:
  "last (handleStat sampleEnv (sampleRequest ''Snames''))
     = RespondRetrieveErr InternalServerError ''aggreate statistics for cluster memebers failed''
 \<and> last (handleStat sampleEnv (sampleRequest ''Sdesc'')) = Respond ''Snil''"
  using handleStat_reply_inverted by simp

section \<open>The member selector\<close>


lemma chooseLoop_inv:
  assumes "\<forall>p\<in>set rs \<union> set ws. p < fresh"
    and "map st rs = map Some R"
    and "map st ws = map Some W"
  shows "case chooseLoop env grp fresh (st, rs, ws) ms of
           (st', rs', ws') \<Rightarrow>
             map st' rs' = map Some (R @ filter (\<lambda>m. candidate env grp m
                 \<and> nodeTag m (modeTagKey env) = ReadModeString env) ms)
           \<and> map st' ws' = map Some (W @ filter (\<lambda>m. candidate env grp m
                 \<and> nodeTag m (modeTagKey env) \<noteq> ReadModeString env) ms)"
  using assms
proof (induction ms arbitrary: fresh st rs ws R W)
  case Nil
  then show ?case by simp
next
  case (Cons m ms)
  define st1 where "st1 = st(fresh \<mapsto> m)"
  have lt: "p < fresh" if "p \<in> set rs \<union> set ws" for p
    using Cons.prems(1) that by blast
  have "map st1 rs = map st rs" "map st1 ws = map st ws"
    unfolding st1_def using lt by fastforce+
  with Cons.prems(2,3) have keep_r: "map st1 rs = map Some R"
    and keep_w: "map st1 ws = map Some W"
    by simp_all
  have at: "st1 fresh = Some m" by (simp add: st1_def)
  have below: "\<forall>p\<in>set rs \<union> set ws. p < Suc fresh"
    using lt less_Suc_eq by blast
  show ?case
  proof (cases "candidate env grp m")
    case False
    have step: "chooseLoop env grp fresh (st, rs, ws) (m # ms)
        = chooseLoop env grp (Suc fresh) (st1, rs, ws) ms"
      using False by (auto simp: candidate_def st1_def)
    from Cons.IH [OF below keep_r keep_w] False show ?thesis
      unfolding step by simp
  next
    case True
    show ?thesis
    proof (cases "nodeTag m (modeTagKey env) = ReadModeString env")
      case rd: True
      have step: "chooseLoop env grp fresh (st, rs, ws) (m # ms)
          = chooseLoop env grp (Suc fresh) (st1, rs @ [fresh], ws) ms"
        using True rd by (auto simp: candidate_def st1_def)
      have b: "\<forall>p\<in>set (rs @ [fresh]) \<union> set ws. p < Suc fresh"
        using below by simp
      have r: "map st1 (rs @ [fresh]) = map Some (R @ [m])"
        using keep_r at by simp
      from Cons.IH [OF b r keep_w] True rd show ?thesis
        unfolding step by simp
    next
      case wr: False
      have step: "chooseLoop env grp fresh (st, rs, ws) (m # ms)
          = chooseLoop env grp (Suc fresh) (st1, rs, ws @ [fresh]) ms"
        using True wr by (auto simp: candidate_def st1_def)
      have b: "\<forall>p\<in>set rs \<union> set (ws @ [fresh]). p < Suc fresh"
        using below by simp
      have w: "map st1 (ws @ [fresh]) = map Some (W @ [m])"
        using keep_w at by simp
      from Cons.IH [OF b keep_r w] True wr show ?thesis
        unfolding step by simp
    qed
  qed
qed

lemma chooseLoop_members:
  obtains st rs ws where
    "chooseLoop env grp 0 (Map.empty, [], []) (ClusterMembers env) = (st, rs, ws)"
    "map st rs = map Some (readCandidates env grp)"
    "map st ws = map Some (writeCandidates env grp)"
proof -
  obtain st rs ws where
    e: "chooseLoop env grp 0 (Map.empty, [], []) (ClusterMembers env) = (st, rs, ws)"
    by (cases "chooseLoop env grp 0 (Map.empty, [], []) (ClusterMembers env)")
  from chooseLoop_inv [of "[]" "[]" 0 Map.empty "[]" "[]" env grp "ClusterMembers env"] e
  have "map st rs = map Some (readCandidates env grp)"
    "map st ws = map Some (writeCandidates env grp)"
    by (simp_all add: readCandidates_def writeCandidates_def)
  with e that show thesis by blast
qed

lemma nth_of_map_eq:
  assumes "map f ps = map Some ms" and "i < length ms"
  shows "f (ps ! i) = Some (ms ! i)"
proof -
  from assms(1) have l: "length ps = length ms" by (metis length_map)
  with assms(2) have "map f ps ! i = f (ps ! i)" by simp
  with assms show ?thesis by simp
qed

text \<open>
  Claim C5. For every membership snapshot and group name: when the group has an alive
  member in read mode, the selector returns a pointer to one of the alive read-mode
  members of the group (the one at the random index); otherwise, when the group has an
  alive member in another mode (write mode), it returns a pointer to one of those;
  otherwise it fails with the error that no member is alive, and \<^verbatim>\<open>issueStat\<close> sends
  no request.
\<close>

theorem chooseMember_preference:
  "(readCandidates env grp \<noteq> [] \<longrightarrow>
      (\<exists>targetPtr st m.
          chooseMemberToAggregateStat env grp = Inr (targetPtr, st)
        \<and> st targetPtr = Some m
        \<and> m = readCandidates env grp ! (randInt env mod length (readCandidates env grp))
        \<and> m \<in> set (ClusterMembers env)
        \<and> nodeTag m (groupTagKey env) = grp \<and> Status m = MemberAlive
        \<and> nodeTag m (modeTagKey env) = ReadModeString env))
 \<and> (readCandidates env grp = [] \<and> writeCandidates env grp \<noteq> [] \<longrightarrow>
      (\<exists>targetPtr st m.
          chooseMemberToAggregateStat env grp = Inr (targetPtr, st)
        \<and> st targetPtr = Some m
        \<and> m = writeCandidates env grp ! (randInt env mod length (writeCandidates env grp))
        \<and> m \<in> set (ClusterMembers env)
        \<and> nodeTag m (groupTagKey env) = grp \<and> Status m = MemberAlive
        \<and> nodeTag m (modeTagKey env) \<noteq> ReadModeString env))
 \<and> (readCandidates env grp = [] \<and> writeCandidates env grp = [] \<longrightarrow>
      chooseMemberToAggregateStat env grp
        = Inl ''none of members is alive to aggregate statistics''
      \<and> filter isRequest (fst (issueStat env grp timeout requestName kind f)) = [])
 \<and> (readCandidates env grp \<noteq> [] \<longleftrightarrow>
      (\<exists>m\<in>set (ClusterMembers env). nodeTag m (groupTagKey env) = grp \<and> Status m = MemberAlive
          \<and> nodeTag m (modeTagKey env) = ReadModeString env))
 \<and> (writeCandidates env grp \<noteq> [] \<longleftrightarrow>
      (\<exists>m\<in>set (ClusterMembers env). nodeTag m (groupTagKey env) = grp \<and> Status m = MemberAlive
          \<and> nodeTag m (modeTagKey env) \<noteq> ReadModeString env))"
proof -
  obtain st rs ws where
    e: "chooseLoop env grp 0 (Map.empty, [], []) (ClusterMembers env) = (st, rs, ws)"
    and r: "map st rs = map Some (readCandidates env grp)"
    and w: "map st ws = map Some (writeCandidates env grp)"
    by (rule chooseLoop_members)
  from r have lr: "length rs = length (readCandidates env grp)" by (metis length_map)
  from w have lw: "length ws = length (writeCandidates env grp)" by (metis length_map)
  from lr have er: "rs = [] \<longleftrightarrow> readCandidates env grp = []" by auto
  from lw have ew: "ws = [] \<longleftrightarrow> writeCandidates env grp = []" by auto
  have c1: "readCandidates env grp \<noteq> [] \<longrightarrow>
      (\<exists>targetPtr st m.
          chooseMemberToAggregateStat env grp = Inr (targetPtr, st)
        \<and> st targetPtr = Some m
        \<and> m = readCandidates env grp ! (randInt env mod length (readCandidates env grp))
        \<and> m \<in> set (ClusterMembers env)
        \<and> nodeTag m (groupTagKey env) = grp \<and> Status m = MemberAlive
        \<and> nodeTag m (modeTagKey env) = ReadModeString env)"
  proof
    assume ne: "readCandidates env grp \<noteq> []"
    let ?i = "randInt env mod length (readCandidates env grp)"
    from ne have i: "?i < length (readCandidates env grp)" by simp
    have res: "chooseMemberToAggregateStat env grp = Inr (rs ! ?i, st)"
      using ne lr er by (simp add: chooseMemberToAggregateStat_def e)
    have d: "st (rs ! ?i) = Some (readCandidates env grp ! ?i)"
      by (rule nth_of_map_eq [OF r i])
    from i have "readCandidates env grp ! ?i \<in> set (readCandidates env grp)" by simp
    then have "readCandidates env grp ! ?i \<in> set (ClusterMembers env)
        \<and> candidate env grp (readCandidates env grp ! ?i)
        \<and> nodeTag (readCandidates env grp ! ?i) (modeTagKey env) = ReadModeString env"
      unfolding readCandidates_def by simp
    with res d show "\<exists>targetPtr st m.
          chooseMemberToAggregateStat env grp = Inr (targetPtr, st)
        \<and> st targetPtr = Some m
        \<and> m = readCandidates env grp ! (randInt env mod length (readCandidates env grp))
        \<and> m \<in> set (ClusterMembers env)
        \<and> nodeTag m (groupTagKey env) = grp \<and> Status m = MemberAlive
        \<and> nodeTag m (modeTagKey env) = ReadModeString env"
      by (simp add: candidate_def)
  qed
  have c2: "readCandidates env grp = [] \<and> writeCandidates env grp \<noteq> [] \<longrightarrow>
      (\<exists>targetPtr st m.
          chooseMemberToAggregateStat env grp = Inr (targetPtr, st)
        \<and> st targetPtr = Some m
        \<and> m = writeCandidates env grp ! (randInt env mod length (writeCandidates env grp))
        \<and> m \<in> set (ClusterMembers env)
        \<and> nodeTag m (groupTagKey env) = grp \<and> Status m = MemberAlive
        \<and> nodeTag m (modeTagKey env) \<noteq> ReadModeString env)"
  proof
    assume a: "readCandidates env grp = [] \<and> writeCandidates env grp \<noteq> []"
    let ?i = "randInt env mod length (writeCandidates env grp)"
    from a have i: "?i < length (writeCandidates env grp)" by simp
    have res: "chooseMemberToAggregateStat env grp = Inr (ws ! ?i, st)"
      using a lr lw er ew by (simp add: chooseMemberToAggregateStat_def e)
    have d: "st (ws ! ?i) = Some (writeCandidates env grp ! ?i)"
      by (rule nth_of_map_eq [OF w i])
    from i have "writeCandidates env grp ! ?i \<in> set (writeCandidates env grp)" by simp
    then have "writeCandidates env grp ! ?i \<in> set (ClusterMembers env)
        \<and> candidate env grp (writeCandidates env grp ! ?i)
        \<and> nodeTag (writeCandidates env grp ! ?i) (modeTagKey env) \<noteq> ReadModeString env"
      unfolding writeCandidates_def by simp
    with res d show "\<exists>targetPtr st m.
          chooseMemberToAggregateStat env grp = Inr (targetPtr, st)
        \<and> st targetPtr = Some m
        \<and> m = writeCandidates env grp ! (randInt env mod length (writeCandidates env grp))
        \<and> m \<in> set (ClusterMembers env)
        \<and> nodeTag m (groupTagKey env) = grp \<and> Status m = MemberAlive
        \<and> nodeTag m (modeTagKey env) \<noteq> ReadModeString env"
      by (simp add: candidate_def)
  qed
  have c3: "readCandidates env grp = [] \<and> writeCandidates env grp = [] \<longrightarrow>
      chooseMemberToAggregateStat env grp
        = Inl ''none of members is alive to aggregate statistics''
      \<and> filter isRequest (fst (issueStat env grp timeout requestName kind f)) = []"
  proof
    assume a: "readCandidates env grp = [] \<and> writeCandidates env grp = []"
    have c: "chooseMemberToAggregateStat env grp
        = Inl ''none of members is alive to aggregate statistics''"
      using a lr lw er ew by (simp add: chooseMemberToAggregateStat_def e)
    have "filter isRequest (fst (issueStat env grp timeout requestName kind f)) = []"
      by (simp add: issueStat_def c split: option.splits sum.splits)
    with c show "chooseMemberToAggregateStat env grp
        = Inl ''none of members is alive to aggregate statistics''
      \<and> filter isRequest (fst (issueStat env grp timeout requestName kind f)) = []"
      by simp
  qed
  have c4: "readCandidates env grp \<noteq> [] \<longleftrightarrow>
      (\<exists>m\<in>set (ClusterMembers env). nodeTag m (groupTagKey env) = grp \<and> Status m = MemberAlive
          \<and> nodeTag m (modeTagKey env) = ReadModeString env)"
    by (auto simp: readCandidates_def candidate_def filter_empty_conv)
  have c5: "writeCandidates env grp \<noteq> [] \<longleftrightarrow>
      (\<exists>m\<in>set (ClusterMembers env). nodeTag m (groupTagKey env) = grp \<and> Status m = MemberAlive
          \<and> nodeTag m (modeTagKey env) \<noteq> ReadModeString env)"
    by (auto simp: writeCandidates_def candidate_def filter_empty_conv)
  from c1 c2 c3 c4 c5 show ?thesis by (intro conjI)
qed


theorem chooseMember_preference_witness:
  "map_option NodeName
     (case chooseMemberToAggregateStat sampleEnv ''g'' of
        Inl err \<Rightarrow> None
      | Inr (targetPtr, st) \<Rightarrow> st targetPtr) = Some ''n1''
 \<and> map_option NodeName
     (case chooseMemberToAggregateStat
             (sampleEnv\<lparr>ClusterMembers := [samplePeer\<lparr>Status := MemberFailed\<rparr>, samplePeer]\<rparr>) ''g'' of
        Inl err \<Rightarrow> None
      | Inr (targetPtr, st) \<Rightarrow> st targetPtr) = Some ''n2''
 \<and> chooseMemberToAggregateStat sampleEnv ''h''
     = Inl ''none of members is alive to aggregate statistics''
 \<and> filter isRequest
       (fst (issueStat sampleEnv ''h'' 1000 ''stat'' PipelineIndicatorNamesKind
          (sampleFilter ''p'' []))) = []"
proof -
  let ?n1 = "\<lparr>NodeName = ''n1'', NodeTags = [(''group'', ''g''), (''mode'', ''read'')],
          Status = MemberAlive\<rparr>"
  let ?env = "sampleEnv\<lparr>ClusterMembers := [samplePeer\<lparr>Status := MemberFailed\<rparr>, samplePeer]\<rparr>"
  have g: "readCandidates sampleEnv ''g'' = [?n1]"
    by (simp add: readCandidates_def candidate_def sampleEnv_def nodeTag_def)
  have w: "readCandidates ?env ''g'' = []" "writeCandidates ?env ''g'' = [samplePeer]"
    by (simp_all add: readCandidates_def writeCandidates_def candidate_def sampleEnv_def
        samplePeer_def nodeTag_def)
  have h: "readCandidates sampleEnv ''h'' = []" "writeCandidates sampleEnv ''h'' = []"
    by (simp_all add: readCandidates_def writeCandidates_def candidate_def sampleEnv_def
        nodeTag_def)
  from chooseMember_preference [of sampleEnv "''g''", THEN conjunct1] g
  obtain p1 st1 where "chooseMemberToAggregateStat sampleEnv ''g'' = Inr (p1, st1)"
    "st1 p1 = Some ?n1"
    by auto
  then have 1: "map_option NodeName
     (case chooseMemberToAggregateStat sampleEnv ''g'' of
        Inl err \<Rightarrow> None
      | Inr (targetPtr, st) \<Rightarrow> st targetPtr) = Some ''n1''"
    by simp
  from chooseMember_preference [of ?env "''g''", THEN conjunct2, THEN conjunct1] w
  obtain p2 st2 where "chooseMemberToAggregateStat ?env ''g'' = Inr (p2, st2)"
    "st2 p2 = Some samplePeer"
    by auto
  then have 2: "map_option NodeName
     (case chooseMemberToAggregateStat ?env ''g'' of
        Inl err \<Rightarrow> None
      | Inr (targetPtr, st) \<Rightarrow> st targetPtr) = Some ''n2''"
    by (simp add: samplePeer_def)
  from chooseMember_preference [of sampleEnv "''h''" 1000 "''stat''" PipelineIndicatorNamesKind
      "sampleFilter ''p'' []", THEN conjunct2, THEN conjunct2, THEN conjunct1] h
  have 3: "chooseMemberToAggregateStat sampleEnv ''h''
     = Inl ''none of members is alive to aggregate statistics''
     \<and> filter isRequest
       (fst (issueStat sampleEnv ''h'' 1000 ''stat'' PipelineIndicatorNamesKind
          (sampleFilter ''p'' []))) = []"
    by simp
  from 1 2 3 show ?thesis by (intro conjI) simp_all
qed

end
